theory Spec2Isabelle
  imports Main "HOL-Library.Word"
begin

unbundle bit_operations_syntax

section \<open>SH-2 HAL over I2C (sh2\_hal\_i2c.c): data model\<close>

text \<open>
  The embedding follows \<^verbatim>\<open>src/Hillcrest/sh2_hal_i2c.c\<close>. The global variables of the
  file become one record \<open>hal_state\<close> that every function takes and returns. Everything
  the code does to the outside world (FreeRTOS semaphores, the STM32 I2C driver, GPIO
  writes, delays, the registered receive callback) is appended to the field \<open>trace\<close>,
  oldest action first, so that "no lock was taken" or "the bus was reinitialised before
  the transfer" are statements about that list.
\<close>

subsection \<open>Macros of the file\<close>

definition DFU_BOOT_DELAY :: nat where "DFU_BOOT_DELAY = 200"
definition RESET_DELAY :: nat where "RESET_DELAY = 10"
definition MAX_EVENTS :: nat where "MAX_EVENTS = 16"
definition SHTP_HEADER_LEN :: "32 word" where "SHTP_HEADER_LEN = 4"

definition ADDR_DFU_0 :: int where "ADDR_DFU_0 = 0x28"
definition ADDR_DFU_1 :: int where "ADDR_DFU_1 = 0x29"
definition ADDR_SH2_0 :: int where "ADDR_SH2_0 = 0x4A"
definition ADDR_SH2_1 :: int where "ADDR_SH2_1 = 0x4B"

text \<open>
  \<^verbatim>\<open>SH2_UNITS\<close> and \<^verbatim>\<open>SH2_HAL_MAX_TRANSFER\<close> come from \<^verbatim>\<open>sh2_hal.h\<close>, which is not
  among the sources: they are parameters of the model.
\<close>

record hal_config =
  SH2_UNITS :: nat
  SH2_HAL_MAX_TRANSFER :: "32 word"

text \<open>
  Modelled from the spec: the status codes \<^verbatim>\<open>SH2_OK\<close>, \<^verbatim>\<open>SH2_ERR_BAD_PARAM\<close> and
  \<^verbatim>\<open>SH2_ERR_IO\<close> are macros of \<^verbatim>\<open>sh2_err.h\<close>, which is missing from the sources. The spec
  names them \<open>Ok\<close>, \<open>BadParam\<close> and \<open>IoError\<close> and treats them as three different
  results, so they are the three constructors of a datatype.
\<close>

datatype sh2_status = SH2_OK | SH2_ERR_BAD_PARAM | SH2_ERR_IO

subsection \<open>Types\<close>

text \<open>The two GPIO lines of unit 0, and the two functions that may sit in the
  function pointers \<^verbatim>\<open>rstn\<close> and \<^verbatim>\<open>bootn\<close>; \<open>None\<close> is the null pointer that
  \<^verbatim>\<open>memset\<close> leaves there.\<close>

datatype gpio_pin = RSTN_GPIO_PIN | BOOTN_GPIO_PIN

datatype line_fn = Fn_rstn0 | Fn_bootn0

text \<open>\<^verbatim>\<open>Sh2_t\<close>. A receive callback is the address of a function of the caller, with
  \<open>0\<close> the null pointer; the cookie is an opaque pointer. \<open>blockSem\<close> is a binary
  semaphore: \<open>True\<close> when it can be taken.\<close>

record Sh2_t =
  rstn :: "line_fn option"
  bootn :: "line_fn option"
  onRx :: nat
  onRxCookie :: nat
  addr :: "16 word"
  rxBuf :: "8 word list"
  rxRemaining :: "16 word"
  blockSem :: bool

text \<open>\<^verbatim>\<open>EventId_t\<close> has the single enumerator \<^verbatim>\<open>EVT_INTN\<close> (value 0); the switch in
  \<^verbatim>\<open>halTask\<close> has a default branch, so the field is a number.\<close>

definition EVT_INTN :: nat where "EVT_INTN = 0"

record Event_t =
  t_ms :: "32 word"
  id_ev :: nat
  unit_ev :: nat

text \<open>What the code does to its environment.\<close>

datatype hw_action =
    MutexTake
  | MutexGive
  | BlockSemTake
  | UnitSemTake nat
  | UnitSemGive nat
  | GpioWritePin gpio_pin bool
  | TaskDelay nat
  | I2cDeInit
  | I2cInit
  | I2cReceiveIT "32 word" "32 word"
  | I2cTransmitIT "32 word" "8 word list" "32 word"
  | OnRxCall nat nat "8 word list" "32 word" "32 word"

text \<open>The globals. \<open>i2cMutex\<close> is \<open>True\<close> while a task holds the mutex;
  \<open>i2cBlockSem\<close> is \<open>True\<close> when the completion semaphore has been given and not yet
  taken.\<close>

record hal_state =
  sh2 :: "nat \<Rightarrow> Sh2_t"
  i2cMutex :: bool
  i2cBlockSem :: bool
  i2cStatus :: sh2_status
  i2cResetNeeded :: bool
  evtQueue :: "Event_t list"
  trace :: "hw_action list"

text \<open>
  A call returns a value, or never returns because it waits (with \<^verbatim>\<open>portMAX_DELAY\<close>)
  for a semaphore or a queue that nothing in the run gives, or faults (a call through a
  null function pointer, a read outside an array).
\<close>

datatype 'a result = Returned 'a hal_state | Blocked hal_state | Faulted

text \<open>
  The I2C driver is external. For one transfer it answers with the return code of
  \<^verbatim>\<open>HAL_I2C_Master_Receive_IT\<close> / \<^verbatim>\<open>HAL_I2C_Master_Transmit_IT\<close>, the interrupt callback
  it raises afterwards (if any), and, for a receive, the bytes it stores through
  \<^verbatim>\<open>pData\<close>.
\<close>

datatype isr_event = TxCplt | RxCplt | ErrorIsr

record bus_reply =
  rc :: int
  isr :: "isr_event option"
  rx_data :: "8 word list"

definition log :: "hw_action list \<Rightarrow> hal_state \<Rightarrow> hal_state" where
  "log as s = s\<lparr>trace := trace s @ as\<rparr>"

section \<open>The functions of the file\<close>

subsection \<open>GPIO lines\<close>

definition bootn0 :: "bool \<Rightarrow> hal_state \<Rightarrow> hal_state" where
  "bootn0 state s = log [GpioWritePin BOOTN_GPIO_PIN state] s"

definition rstn0 :: "bool \<Rightarrow> hal_state \<Rightarrow> hal_state" where
  "rstn0 state s = log [GpioWritePin RSTN_GPIO_PIN state] s"

text \<open>A call through a function pointer of \<^verbatim>\<open>Sh2_t\<close>.\<close>

fun call_line :: "line_fn option \<Rightarrow> bool \<Rightarrow> hal_state \<Rightarrow> hal_state option" where
  "call_line None state s = None"
| "call_line (Some Fn_rstn0) state s = Some (rstn0 state s)"
| "call_line (Some Fn_bootn0) state s = Some (bootn0 state s)"

subsection \<open>Interrupt callbacks\<close>

definition xQueueSend :: "Event_t \<Rightarrow> hal_state \<Rightarrow> hal_state" where
  "xQueueSend event s =
     (if length (evtQueue s) < MAX_EVENTS then s\<lparr>evtQueue := evtQueue s @ [event]\<rparr> else s)"

text \<open>\<^verbatim>\<open>HAL_GPIO_EXTI_Callback(n)\<close>; \<open>tick\<close> is what \<^verbatim>\<open>xTaskGetTickCount\<close> returns.\<close>

definition HAL_GPIO_EXTI_Callback :: "16 word \<Rightarrow> 32 word \<Rightarrow> hal_state \<Rightarrow> hal_state" where
  "HAL_GPIO_EXTI_Callback n tick s =
     (let event = \<lparr>t_ms = tick, id_ev = EVT_INTN, unit_ev = 0\<rparr>
      in xQueueSend event s)"

definition HAL_I2C_MasterTxCpltCallback :: "hal_state \<Rightarrow> hal_state" where
  "HAL_I2C_MasterTxCpltCallback s = s\<lparr>i2cStatus := SH2_OK, i2cBlockSem := True\<rparr>"

definition HAL_I2C_MasterRxCpltCallback :: "hal_state \<Rightarrow> hal_state" where
  "HAL_I2C_MasterRxCpltCallback s = s\<lparr>i2cStatus := SH2_OK, i2cBlockSem := True\<rparr>"

definition HAL_I2C_ErrorCallback :: "hal_state \<Rightarrow> hal_state" where
  "HAL_I2C_ErrorCallback s = s\<lparr>i2cStatus := SH2_ERR_IO, i2cBlockSem := True\<rparr>"

fun run_isr :: "isr_event option \<Rightarrow> hal_state \<Rightarrow> hal_state" where
  "run_isr None s = s"
| "run_isr (Some TxCplt) s = HAL_I2C_MasterTxCpltCallback s"
| "run_isr (Some RxCplt) s = HAL_I2C_MasterRxCpltCallback s"
| "run_isr (Some ErrorIsr) s = HAL_I2C_ErrorCallback s"

subsection \<open>Blocking bus transactions\<close>

definition i2cReset :: "hal_state \<Rightarrow> hal_state" where
  "i2cReset s = (log [I2cDeInit, I2cInit] s)\<lparr>i2cResetNeeded := False\<rparr>"

text \<open>\<^verbatim>\<open>xSemaphoreTake(i2cMutex, portMAX_DELAY)\<close> and \<^verbatim>\<open>xSemaphoreGive(i2cMutex)\<close>;
  \<open>None\<close>: the mutex is held, the caller waits.\<close>

definition take_i2cMutex :: "hal_state \<Rightarrow> hal_state option" where
  "take_i2cMutex s =
     (if i2cMutex s then None else Some (log [MutexTake] (s\<lparr>i2cMutex := True\<rparr>)))"

definition give_i2cMutex :: "hal_state \<Rightarrow> hal_state" where
  "give_i2cMutex s = log [MutexGive] (s\<lparr>i2cMutex := False\<rparr>)"

text \<open>\<^verbatim>\<open>xSemaphoreTake(i2cBlockSem, portMAX_DELAY)\<close>.\<close>

definition take_i2cBlockSem :: "hal_state \<Rightarrow> hal_state option" where
  "take_i2cBlockSem s =
     (if i2cBlockSem s then Some (log [BlockSemTake] (s\<lparr>i2cBlockSem := False\<rparr>)) else None)"

text \<open>The bytes the driver stores at the start of the buffer it was given.\<close>

definition store_rx :: "8 word list \<Rightarrow> 8 word list \<Rightarrow> 8 word list" where
  "store_rx bytes pData = take (length pData) (bytes @ drop (length bytes) pData)"

definition i2cBlockingRx ::
  "bus_reply \<Rightarrow> 32 word \<Rightarrow> 8 word list \<Rightarrow> 32 word \<Rightarrow> hal_state
     \<Rightarrow> (sh2_status \<times> 8 word list) result" where
  "i2cBlockingRx reply addr' pData len s =
     (case take_i2cMutex s of
        None \<Rightarrow> Blocked s
      | Some s1 \<Rightarrow>
          let s2 = (if i2cResetNeeded s1 then i2cReset s1 else s1);
              s3 = log [I2cReceiveIT addr' len] s2
          in if rc reply = 0 then
               (let pData' = store_rx (take (unat len) (rx_data reply)) pData
                in case take_i2cBlockSem (run_isr (isr reply) s3) of
                     None \<Rightarrow> Blocked s3
                   | Some s4 \<Rightarrow> Returned (i2cStatus s4, pData') (give_i2cMutex s4))
             else Returned (SH2_ERR_IO, pData) (give_i2cMutex s3))"

definition i2cBlockingTx ::
  "bus_reply \<Rightarrow> 32 word \<Rightarrow> 8 word list \<Rightarrow> 32 word \<Rightarrow> hal_state \<Rightarrow> sh2_status result" where
  "i2cBlockingTx reply addr' pData len s =
     (case take_i2cMutex s of
        None \<Rightarrow> Blocked s
      | Some s1 \<Rightarrow>
          let s2 = (if i2cResetNeeded s1 then i2cReset s1 else s1);
              s3 = log [I2cTransmitIT addr' pData len] s2
          in if rc reply = 0 then
               (case take_i2cBlockSem (run_isr (isr reply) s3) of
                  None \<Rightarrow> Blocked s3
                | Some s4 \<Rightarrow> Returned (i2cStatus s4) (give_i2cMutex s4))
             else Returned SH2_ERR_IO (give_i2cMutex s3))"

subsection \<open>Public API\<close>

text \<open>\<^verbatim>\<open>sh2_hal_init\<close>. \<^verbatim>\<open>memset\<close> clears every unit, unit 0 gets its two line
  functions, then every unit is put in reset through its function pointers; the mutex,
  the completion semaphore and the event queue are created (free, empty, empty). The I2C
  handle, the \<^verbatim>\<open>printf\<close> calls and the creation of the task are left out.\<close>

definition zero_Sh2 :: "hal_config \<Rightarrow> Sh2_t" where
  "zero_Sh2 cfg =
     \<lparr>rstn = None, bootn = None, onRx = 0, onRxCookie = 0, addr = 0,
      rxBuf = replicate (unat (SH2_HAL_MAX_TRANSFER cfg)) 0, rxRemaining = 0, blockSem = False\<rparr>"

fun hold_in_reset :: "nat list \<Rightarrow> hal_state \<Rightarrow> hal_state option" where
  "hold_in_reset [] s = Some s"
| "hold_in_reset (unit # units) s =
     (case call_line (rstn (sh2 s unit)) False s of
        None \<Rightarrow> None
      | Some s1 \<Rightarrow>
          (case call_line (bootn (sh2 s1 unit)) True s1 of
             None \<Rightarrow> None
           | Some s2 \<Rightarrow> hold_in_reset units s2))"

definition sh2_hal_init :: "hal_config \<Rightarrow> hal_state \<Rightarrow> unit result" where
  "sh2_hal_init cfg s =
     (let s1 = s\<lparr>i2cResetNeeded := True\<rparr>;
          s2 = s1\<lparr>sh2 := (\<lambda>unit. if unit < SH2_UNITS cfg then zero_Sh2 cfg else sh2 s1 unit)\<rparr>;
          s3 = s2\<lparr>sh2 := (sh2 s2)(0 := (sh2 s2 0)\<lparr>rstn := Some Fn_rstn0, bootn := Some Fn_bootn0\<rparr>)\<rparr>
      in case hold_in_reset [0 ..< SH2_UNITS cfg] s3 of
           None \<Rightarrow> Faulted
         | Some s4 \<Rightarrow> Returned () (s4\<lparr>i2cMutex := False, i2cBlockSem := False, evtQueue := []\<rparr>))"

definition unit_addr :: "nat \<Rightarrow> bool \<Rightarrow> 16 word" where
  "unit_addr unit dfuMode =
     (if unit = 1
      then (if dfuMode then word_of_int (push_bit 1 ADDR_DFU_1)
            else word_of_int (push_bit 1 ADDR_SH2_1))
      else (if dfuMode then word_of_int (push_bit 1 ADDR_DFU_0)
            else word_of_int (push_bit 1 ADDR_SH2_0)))"

definition vTaskDelay :: "nat \<Rightarrow> hal_state \<Rightarrow> hal_state" where
  "vTaskDelay ticks s = log [TaskDelay ticks] s"

definition sh2_hal_reset ::
  "hal_config \<Rightarrow> nat \<Rightarrow> bool \<Rightarrow> nat \<Rightarrow> nat \<Rightarrow> hal_state \<Rightarrow> sh2_status result" where
  "sh2_hal_reset cfg unit dfuMode onRx' cookie s =
     (if unit \<ge> SH2_UNITS cfg then Returned SH2_ERR_BAD_PARAM s
      else case take_i2cMutex s of
        None \<Rightarrow> Blocked s
      | Some s1 \<Rightarrow>
          let s2 = s1\<lparr>sh2 := (sh2 s1)(unit := (sh2 s1 unit)\<lparr>onRx := onRx', onRxCookie := cookie\<rparr>)\<rparr>;
              s3 = s2\<lparr>sh2 := (sh2 s2)(unit := (sh2 s2 unit)\<lparr>addr := unit_addr unit dfuMode\<rparr>)\<rparr>
          in case call_line (rstn (sh2 s3 unit)) False s3 of
               None \<Rightarrow> Faulted
             | Some s4 \<Rightarrow>
                 (case call_line (bootn (sh2 s4 unit)) (\<not> dfuMode) s4 of
                    None \<Rightarrow> Faulted
                  | Some s5 \<Rightarrow>
                      (case call_line (rstn (sh2 s5 unit)) True (vTaskDelay RESET_DELAY s5) of
                         None \<Rightarrow> Faulted
                       | Some s6 \<Rightarrow>
                           let s7 = (if dfuMode then vTaskDelay DFU_BOOT_DELAY s6 else s6);
                               s8 = s7\<lparr>i2cResetNeeded := True\<rparr>
                           in Returned SH2_OK (give_i2cMutex s8))))"

definition sh2_hal_tx ::
  "hal_config \<Rightarrow> bus_reply \<Rightarrow> nat \<Rightarrow> 8 word list \<Rightarrow> 32 word \<Rightarrow> hal_state \<Rightarrow> sh2_status result" where
  "sh2_hal_tx cfg reply unit pData len s =
     (if unit \<ge> SH2_UNITS cfg then Returned SH2_ERR_BAD_PARAM s
      else if len = 0 then Returned SH2_OK s
      else i2cBlockingTx reply (ucast (addr (sh2 s unit))) pData len s)"

text \<open>\<^verbatim>\<open>sh2_hal_rx\<close> hands the caller's buffer to the driver; the model returns the buffer
  next to the status.\<close>

definition sh2_hal_rx ::
  "hal_config \<Rightarrow> bus_reply \<Rightarrow> nat \<Rightarrow> 8 word list \<Rightarrow> 32 word \<Rightarrow> hal_state
     \<Rightarrow> (sh2_status \<times> 8 word list) result" where
  "sh2_hal_rx cfg reply unit pData len s =
     (if unit \<ge> SH2_UNITS cfg then Returned (SH2_ERR_BAD_PARAM, pData) s
      else if len = 0 then Returned (SH2_OK, pData) s
      else i2cBlockingRx reply (ucast (addr (sh2 s unit))) pData len s)"

definition sh2_hal_block :: "hal_config \<Rightarrow> nat \<Rightarrow> hal_state \<Rightarrow> sh2_status result" where
  "sh2_hal_block cfg unit s =
     (if unit \<ge> SH2_UNITS cfg then Returned SH2_ERR_BAD_PARAM s
      else if blockSem (sh2 s unit)
      then Returned SH2_OK
             (log [UnitSemTake unit] (s\<lparr>sh2 := (sh2 s)(unit := (sh2 s unit)\<lparr>blockSem := False\<rparr>)\<rparr>))
      else Blocked s)"

definition sh2_hal_unblock :: "hal_config \<Rightarrow> nat \<Rightarrow> hal_state \<Rightarrow> sh2_status result" where
  "sh2_hal_unblock cfg unit s =
     (if unit \<ge> SH2_UNITS cfg then Returned SH2_ERR_BAD_PARAM s
      else Returned SH2_OK
             (log [UnitSemGive unit] (s\<lparr>sh2 := (sh2 s)(unit := (sh2 s unit)\<lparr>blockSem := True\<rparr>)\<rparr>)))"

subsection \<open>The worker task\<close>

text \<open>The read length computed at lines 351 to 359 of the file, from
  \<^verbatim>\<open>pSh2->rxRemaining\<close>.\<close>

definition readLen_of :: "hal_config \<Rightarrow> 16 word \<Rightarrow> 32 word" where
  "readLen_of cfg remaining =
     (let readLen = ucast remaining;
          readLen = (if readLen < SHTP_HEADER_LEN then SHTP_HEADER_LEN else readLen);
          readLen = (if readLen > SH2_HAL_MAX_TRANSFER cfg then SH2_HAL_MAX_TRANSFER cfg
                     else readLen)
      in readLen)"

text \<open>The cargo length of line 365: \<^verbatim>\<open>((rxBuf[1] << 8) + rxBuf[0]) & (~0x8000)\<close>, computed
  in \<^verbatim>\<open>int\<close> and stored in an \<^verbatim>\<open>unsigned\<close>. A buffer of fewer than two bytes has no
  \<^verbatim>\<open>rxBuf[1]\<close>.\<close>

fun cargoLen_of :: "8 word list \<Rightarrow> 32 word option" where
  "cargoLen_of (b0 # b1 # rest) = Some ((push_bit 8 (ucast b1) + ucast b0) AND NOT 0x8000)"
| "cargoLen_of _ = None"

text \<open>The value stored in \<^verbatim>\<open>rxRemaining\<close> at lines 368 to 375 (a \<^verbatim>\<open>uint16_t\<close>).\<close>

definition rxRemaining_of :: "32 word \<Rightarrow> 32 word \<Rightarrow> 16 word" where
  "rxRemaining_of cargoLen readLen =
     (if cargoLen > readLen then ucast ((cargoLen - readLen) + SHTP_HEADER_LEN) else 0)"

text \<open>One turn of the loop of \<^verbatim>\<open>halTask\<close>, after \<^verbatim>\<open>xQueueReceive\<close> has delivered
  \<open>event\<close>. \<open>reply\<close> is the driver's answer if the turn starts a transfer. The receive
  callback is code of the caller: the model records the call with its arguments (the
  buffer by its contents) and nothing else.\<close>

definition halTask_body :: "hal_config \<Rightarrow> bus_reply \<Rightarrow> Event_t \<Rightarrow> hal_state \<Rightarrow> unit result" where
  "halTask_body cfg reply event s =
     (if unit_ev event \<ge> SH2_UNITS cfg then Returned () s
      else
        let unit = unit_ev event; pSh2 = sh2 s unit in
        if id_ev event = EVT_INTN then
          (if onRx pSh2 \<noteq> 0 then
             (let readLen = readLen_of cfg (rxRemaining pSh2) in
              case i2cBlockingRx reply (ucast (addr pSh2)) (rxBuf pSh2) readLen s of
                Blocked s' \<Rightarrow> Blocked s'
              | Faulted \<Rightarrow> Faulted
              | Returned (status, buf) s1 \<Rightarrow>
                  (case cargoLen_of buf of
                     None \<Rightarrow> Faulted
                   | Some cargoLen \<Rightarrow>
                       let s2 = s1\<lparr>sh2 := (sh2 s1)(unit := (sh2 s1 unit)
                                   \<lparr>rxBuf := buf, rxRemaining := rxRemaining_of cargoLen readLen\<rparr>)\<rparr>;
                           p = sh2 s2 unit
                       in Returned ()
                            (log [OnRxCall (onRx p) (onRxCookie p) (rxBuf p) readLen
                                    (t_ms event * 1000)] s2)))
           else Returned () s)
        else Returned () s)"

text \<open>The driver answering nothing: the transfer starts and no interrupt follows.\<close>

definition silent_reply :: bus_reply where
  "silent_reply = \<lparr>rc = 0, isr = None, rx_data = []\<rparr>"

lemma run_isr_frame [simp]:
  "evtQueue (run_isr i s) = evtQueue s"
  "trace (run_isr i s) = trace s"
  "sh2 (run_isr i s) = sh2 s"
  "i2cMutex (run_isr i s) = i2cMutex s"
  "i2cResetNeeded (run_isr i s) = i2cResetNeeded s"
  by (induct i s rule: run_isr.induct)
     (simp_all add: HAL_I2C_MasterTxCpltCallback_def HAL_I2C_MasterRxCpltCallback_def
        HAL_I2C_ErrorCallback_def)

lemma i2cBlockingRx_evtQueue:
  "i2cBlockingRx reply a pData len s = Returned x s' \<Longrightarrow> evtQueue s' = evtQueue s"
  by (auto simp: i2cBlockingRx_def take_i2cMutex_def take_i2cBlockSem_def give_i2cMutex_def
        i2cReset_def log_def Let_def split: if_splits option.splits)

lemma halTask_body_evtQueue:
  "halTask_body cfg reply event s = Returned x s' \<Longrightarrow> evtQueue s' = evtQueue s"
  by (auto simp: halTask_body_def Let_def log_def dest!: i2cBlockingRx_evtQueue
        split: if_splits result.splits option.splits prod.splits)

text \<open>The loop of \<^verbatim>\<open>halTask\<close>: \<^verbatim>\<open>xQueueReceive(evtQueue, &event, portMAX_DELAY)\<close> takes the
  oldest event, or waits when the queue is empty. \<open>replies\<close> holds the driver's answer
  for each turn, the first for the first turn; once the list is used up the driver is
  silent. The run ends where the task waits.\<close>

function halTask :: "hal_config \<Rightarrow> bus_reply list \<Rightarrow> hal_state \<Rightarrow> unit result" where
  "halTask cfg replies s =
     (case evtQueue s of
        [] \<Rightarrow> Blocked s
      | event # q \<Rightarrow>
          (case halTask_body cfg (case replies of [] \<Rightarrow> silent_reply | r # _ \<Rightarrow> r) event
                  (s\<lparr>evtQueue := q\<rparr>) of
             Returned _ s' \<Rightarrow> halTask cfg (tl replies) s'
           | Blocked s' \<Rightarrow> Blocked s'
           | Faulted \<Rightarrow> Faulted))"
  by pat_completeness auto
termination
proof (relation "measure (\<lambda>(cfg, replies, s). length (evtQueue s))")
  show "wf (measure (\<lambda>(cfg, replies, s). length (evtQueue s)))"
    by simp
next
  fix cfg :: hal_config and replies :: "bus_reply list" and s s' :: hal_state
    and event q x
  assume q: "evtQueue s = event # q"
    and b: "halTask_body cfg (case replies of [] \<Rightarrow> silent_reply | r # _ \<Rightarrow> r) event
              (s\<lparr>evtQueue := q\<rparr>) = Returned x s'"
  from halTask_body_evtQueue [OF b] q
  show "((cfg, tl replies, s'), (cfg, replies, s))
          \<in> measure (\<lambda>(cfg, replies, s). length (evtQueue s))"
    by simp
qed

declare halTask.simps [simp del]

section \<open>Runs of calls\<close>

text \<open>The actions a transfer adds to the trace: the mutex is taken, the peripheral is
  reinitialised when the flag asks for it, the transfer is started, the completion
  semaphore is taken when the transfer did start, the mutex is given back.\<close>

definition xfer_trace :: "bool \<Rightarrow> hw_action \<Rightarrow> bool \<Rightarrow> hw_action list" where
  "xfer_trace reinit act waited =
     [MutexTake] @ (if reinit then [I2cDeInit, I2cInit] else []) @ [act]
       @ (if waited then [BlockSemTake] else []) @ [MutexGive]"

text \<open>The state a call leaves behind: where it returned, or where it waits.\<close>

fun state_after :: "'a result \<Rightarrow> hal_state option" where
  "state_after (Returned x s) = Some s"
| "state_after (Blocked s) = None"
| "state_after Faulted = None"

fun last_state :: "'a result \<Rightarrow> hal_state option" where
  "last_state (Returned x s) = Some s"
| "last_state (Blocked s) = Some s"
| "last_state Faulted = None"

fun value_of :: "'a result \<Rightarrow> 'a option" where
  "value_of (Returned x s) = Some x"
| "value_of (Blocked s) = None"
| "value_of Faulted = None"

definition new_actions :: "hal_state \<Rightarrow> hal_state \<Rightarrow> hw_action list" where
  "new_actions s s' = drop (length (trace s)) (trace s')"

fun is_transfer :: "hw_action \<Rightarrow> bool" where
  "is_transfer (I2cReceiveIT a l) = True"
| "is_transfer (I2cTransmitIT a d l) = True"
| "is_transfer _ = False"

text \<open>
  What can happen to the HAL, one thing after the other: a call of the public API by a
  client task, an interrupt on the sensor's line, or one turn of the worker task (which
  takes the oldest queued event; with an empty queue it keeps waiting). A run goes on
  while each call returns.
\<close>

datatype hal_call =
    Reset nat bool nat nat
  | Tx bus_reply nat "8 word list" "32 word"
  | Rx bus_reply nat "8 word list" "32 word"
  | Block nat
  | Unblock nat
  | ExtiIrq "16 word" "32 word"
  | TaskTurn bus_reply

fun do_call :: "hal_config \<Rightarrow> hal_call \<Rightarrow> hal_state \<Rightarrow> hal_state option" where
  "do_call cfg (Reset unit dfuMode cb cookie) s = state_after (sh2_hal_reset cfg unit dfuMode cb cookie s)"
| "do_call cfg (Tx reply unit pData len) s = state_after (sh2_hal_tx cfg reply unit pData len s)"
| "do_call cfg (Rx reply unit pData len) s = state_after (sh2_hal_rx cfg reply unit pData len s)"
| "do_call cfg (Block unit) s = state_after (sh2_hal_block cfg unit s)"
| "do_call cfg (Unblock unit) s = state_after (sh2_hal_unblock cfg unit s)"
| "do_call cfg (ExtiIrq n tick) s = Some (HAL_GPIO_EXTI_Callback n tick s)"
| "do_call cfg (TaskTurn reply) s =
     (case evtQueue s of
        [] \<Rightarrow> Some s
      | event # q \<Rightarrow> state_after (halTask_body cfg reply event (s\<lparr>evtQueue := q\<rparr>)))"

fun run :: "hal_config \<Rightarrow> hal_call list \<Rightarrow> hal_state \<Rightarrow> hal_state option" where
  "run cfg [] s = Some s"
| "run cfg (c # cs) s = (case do_call cfg c s of None \<Rightarrow> None | Some s' \<Rightarrow> run cfg cs s')"

fun is_Reset :: "hal_call \<Rightarrow> bool" where
  "is_Reset (Reset unit dfuMode cb cookie) = True"
| "is_Reset _ = False"

fun resets_unit :: "nat \<Rightarrow> hal_call \<Rightarrow> bool" where
  "resets_unit u (Reset unit dfuMode cb cookie) = (unit = u)"
| "resets_unit u _ = False"

text \<open>A queue that holds interrupt events of unit 0 only.\<close>

definition only_unit0 :: "Event_t list \<Rightarrow> bool" where
  "only_unit0 q = list_all (\<lambda>e. unit_ev e = 0 \<and> id_ev e = EVT_INTN) q"

text \<open>The two driver calls of \<^verbatim>\<open>i2cReset\<close>.\<close>

fun is_reinit :: "hw_action \<Rightarrow> bool" where
  "is_reinit I2cDeInit = True"
| "is_reinit I2cInit = True"
| "is_reinit _ = False"

text \<open>An action that concerns the unit \<open>p\<close> if it concerns a unit at all: a callback is the
  unit's callback with its cookie, a receive goes to the unit's address.\<close>

fun action_of_unit :: "Sh2_t \<Rightarrow> hw_action \<Rightarrow> bool" where
  "action_of_unit p (OnRxCall cb ck buf l t) = (cb = onRx p \<and> ck = onRxCookie p)"
| "action_of_unit p (I2cReceiveIT a l) = (a = ucast (addr p))"
| "action_of_unit p (I2cTransmitIT a d l) = False"
| "action_of_unit p _ = True"

text \<open>The address stored for a unit in the state a call returned.\<close>

definition stored_addr :: "nat \<Rightarrow> 'a result \<Rightarrow> 16 word option" where
  "stored_addr unit r = map_option (\<lambda>s. addr (sh2 s unit)) (state_after r)"

text \<open>What one call that returns may do to the state, in the terms the invariants of a run need.\<close>

definition call_ok :: "hal_call \<Rightarrow> hal_state \<Rightarrow> hal_state \<Rightarrow> bool" where
  "call_ok c s s' \<longleftrightarrow>
     (\<exists>as. trace s' = trace s @ as
        \<and> (\<not> is_Reset c \<and> \<not> i2cResetNeeded s \<longrightarrow> \<not> i2cResetNeeded s' \<and> \<not> list_ex is_reinit as)
        \<and> (i2cResetNeeded s \<and> \<not> list_ex is_transfer as \<longrightarrow> i2cResetNeeded s'))
   \<and> (\<not> i2cMutex s \<longrightarrow> \<not> i2cMutex s')
   \<and> (\<forall>u. \<not> resets_unit u c \<longrightarrow> addr (sh2 s' u) = addr (sh2 s u))
   \<and> (only_unit0 (evtQueue s) \<longrightarrow> only_unit0 (evtQueue s'))"

section \<open>Concrete configuration and states\<close>

text \<open>
  One sensor hub, transfers of up to 384 bytes. \<open>power_on_state\<close> is the zeroed static
  storage before \<^verbatim>\<open>sh2_hal_init\<close> (with \<^verbatim>\<open>i2cStatus\<close> read as \<open>SH2_OK\<close>),
  \<open>ready_state\<close> the state \<^verbatim>\<open>sh2_hal_init\<close> leaves, \<open>listening_state\<close> the state after
  \<^verbatim>\<open>sh2_hal_reset(0, false, cb, cookie)\<close> with the callback at address 1 and cookie 7.
\<close>

definition example_config :: hal_config where
  "example_config = \<lparr>SH2_UNITS = 1, SH2_HAL_MAX_TRANSFER = 384\<rparr>"

definition power_on_state :: hal_state where
  "power_on_state =
     \<lparr>sh2 = (\<lambda>unit. zero_Sh2 example_config), i2cMutex = False, i2cBlockSem = False,
      i2cStatus = SH2_OK, i2cResetNeeded = False, evtQueue = [], trace = []\<rparr>"

definition ready_state :: hal_state where
  "ready_state =
     \<lparr>sh2 = (\<lambda>unit. zero_Sh2 example_config)
              (0 := (zero_Sh2 example_config)\<lparr>rstn := Some Fn_rstn0, bootn := Some Fn_bootn0\<rparr>),
      i2cMutex = False, i2cBlockSem = False, i2cStatus = SH2_OK, i2cResetNeeded = True,
      evtQueue = [],
      trace = [GpioWritePin RSTN_GPIO_PIN False, GpioWritePin BOOTN_GPIO_PIN True]\<rparr>"

definition listening_state :: hal_state where
  "listening_state =
     ready_state\<lparr>sh2 := (sh2 ready_state)(0 := (sh2 ready_state 0)
                    \<lparr>onRx := 1, onRxCookie := 7, addr := 0x94\<rparr>),
       trace := trace ready_state @
         [MutexTake, GpioWritePin RSTN_GPIO_PIN False, GpioWritePin BOOTN_GPIO_PIN True,
          TaskDelay 10, GpioWritePin RSTN_GPIO_PIN True, MutexGive]\<rparr>"

definition first_chunk_reply :: bus_reply where
  "first_chunk_reply = \<lparr>rc = 0, isr = Some RxCplt, rx_data = [0x14, 0x01, 0x00, 0x00]\<rparr>"

definition intn_event :: Event_t where
  "intn_event = \<lparr>t_ms = 5, id_ev = EVT_INTN, unit_ev = 0\<rparr>"

text \<open>
  Three more answers of the driver: the transfer is refused, the error callback follows,
  the transmit completes. \<open>mid_message_state\<close> is \<open>listening_state\<close> after the worker
  task has handled \<open>intn_event\<close> with the answer \<open>first_chunk_reply\<close>: the header in the
  buffer announces 276 bytes, 4 were read, and \<^verbatim>\<open>rxRemaining\<close> is 276.
\<close>

definition refused_reply :: bus_reply where
  "refused_reply = \<lparr>rc = 1, isr = None, rx_data = []\<rparr>"

definition error_reply :: bus_reply where
  "error_reply = \<lparr>rc = 0, isr = Some ErrorIsr, rx_data = []\<rparr>"

definition tx_done_reply :: bus_reply where
  "tx_done_reply = \<lparr>rc = 0, isr = Some TxCplt, rx_data = []\<rparr>"

definition mid_message_state :: hal_state where
  "mid_message_state =
     listening_state\<lparr>sh2 := (sh2 listening_state)(0 := (sh2 listening_state 0)
                    \<lparr>rxBuf := [0x14, 0x01, 0x00, 0x00] @ replicate 380 0, rxRemaining := 276\<rparr>),
       i2cResetNeeded := False,
       trace := trace listening_state @
         [MutexTake, I2cDeInit, I2cInit, I2cReceiveIT 0x94 4, BlockSemTake, MutexGive,
          OnRxCall 1 7 ([0x14, 0x01, 0x00, 0x00] @ replicate 380 0) 4 5000]\<rparr>"

section \<open>Lemmas about the functions\<close>

lemmas fixture_defs = intn_event_def example_config_def listening_state_def first_chunk_reply_def
  ready_state_def zero_Sh2_def

lemmas hal_defs = halTask_body_def i2cBlockingRx_def i2cBlockingTx_def take_i2cMutex_def
  take_i2cBlockSem_def give_i2cMutex_def i2cReset_def log_def Let_def
  HAL_I2C_MasterTxCpltCallback_def HAL_I2C_MasterRxCpltCallback_def HAL_I2C_ErrorCallback_def
  readLen_of_def rxRemaining_of_def SHTP_HEADER_LEN_def EVT_INTN_def store_rx_def

lemmas fixture_defs2 = fixture_defs refused_reply_def error_reply_def tx_done_reply_def
  mid_message_state_def

lemma first_chunk_example:
  "halTask_body example_config first_chunk_reply intn_event listening_state
     = Returned () mid_message_state"
  by (simp add: fixture_defs2 hal_defs fun_eq_iff)

lemma sh2_hal_init_example:
  "sh2_hal_init example_config power_on_state = Returned () ready_state"
  by (simp add: sh2_hal_init_def example_config_def power_on_state_def ready_state_def Let_def
      upt_rec rstn0_def bootn0_def log_def fun_eq_iff)

lemma sh2_hal_reset_example:
  "sh2_hal_reset example_config 0 False 1 7 ready_state = Returned SH2_OK listening_state"
  by (simp add: sh2_hal_reset_def example_config_def listening_state_def ready_state_def Let_def
       rstn0_def bootn0_def log_def fun_eq_iff take_i2cMutex_def give_i2cMutex_def unit_addr_def
       ADDR_SH2_0_def vTaskDelay_def RESET_DELAY_def)

lemma run_isr_status:
  "i2cBlockSem (run_isr i s) = (i \<noteq> None \<or> i2cBlockSem s)"
  "i2cStatus (run_isr i s) = (case i of None \<Rightarrow> i2cStatus s | Some ErrorIsr \<Rightarrow> SH2_ERR_IO | Some _ \<Rightarrow> SH2_OK)"
  by (induct i s rule: run_isr.induct)
     (simp_all add: HAL_I2C_MasterTxCpltCallback_def HAL_I2C_MasterRxCpltCallback_def
        HAL_I2C_ErrorCallback_def)

lemma i2cBlockingRx_ReturnedD:
  assumes "i2cBlockingRx reply a p len s = Returned x s1"
  shows "\<not> i2cMutex s \<and> sh2 s1 = sh2 s \<and> evtQueue s1 = evtQueue s \<and> \<not> i2cMutex s1
       \<and> \<not> i2cResetNeeded s1
       \<and> trace s1 = trace s @ xfer_trace (i2cResetNeeded s) (I2cReceiveIT a len) (rc reply = 0)
       \<and> x = (if rc reply = 0
              then (i2cStatus (run_isr (isr reply) s),
                    store_rx (take (unat len) (rx_data reply)) p)
              else (SH2_ERR_IO, p))"
  using assms
  by (auto simp: i2cBlockingRx_def take_i2cMutex_def take_i2cBlockSem_def give_i2cMutex_def
        i2cReset_def log_def Let_def xfer_trace_def run_isr_status
        split: if_splits option.splits)

lemma halTask_body_read:
  assumes u: "unit_ev event < SH2_UNITS cfg" and i: "id_ev event = EVT_INTN"
    and cb: "onRx (sh2 s (unit_ev event)) \<noteq> 0"
    and r: "halTask_body cfg reply event s = Returned x s'"
  shows "\<exists>status buf s1 c.
           i2cBlockingRx reply (ucast (addr (sh2 s (unit_ev event)))) (rxBuf (sh2 s (unit_ev event)))
              (readLen_of cfg (rxRemaining (sh2 s (unit_ev event)))) s = Returned (status, buf) s1
         \<and> cargoLen_of buf = Some c
         \<and> s' = log [OnRxCall (onRx (sh2 s (unit_ev event))) (onRxCookie (sh2 s (unit_ev event))) buf
                       (readLen_of cfg (rxRemaining (sh2 s (unit_ev event)))) (t_ms event * 1000)]
                  (s1\<lparr>sh2 := (sh2 s)(unit_ev event := (sh2 s (unit_ev event))
                         \<lparr>rxBuf := buf,
                          rxRemaining := rxRemaining_of c
                             (readLen_of cfg (rxRemaining (sh2 s (unit_ev event))))\<rparr>)\<rparr>)"
  using assms
  by (auto simp: halTask_body_def Let_def  dest!: i2cBlockingRx_ReturnedD
        split: if_splits result.splits option.splits prod.splits)


lemma length_store_rx [simp]: "length (store_rx bytes p) = length p"
  by (simp add: store_rx_def)

lemma i2cBlockingRx_returns:
  assumes "\<not> i2cMutex s" and "rc reply \<noteq> 0 \<or> isr reply \<noteq> None"
  shows "\<exists>st buf s1. i2cBlockingRx reply a p len s = Returned (st, buf) s1 \<and> length buf = length p"
  using assms
  by (auto simp: i2cBlockingRx_def take_i2cMutex_def take_i2cBlockSem_def Let_def run_isr_status)

lemma cargoLen_of_Some: "2 \<le> length buf \<Longrightarrow> \<exists>c. cargoLen_of buf = Some c"
  by (cases buf rule: cargoLen_of.cases) simp_all

lemma halTask_body_returns:
  assumes u: "unit_ev event < SH2_UNITS cfg" and i: "id_ev event = EVT_INTN"
    and cb: "onRx (sh2 s (unit_ev event)) \<noteq> 0"
    and free: "\<not> i2cMutex s" and ans: "rc reply \<noteq> 0 \<or> isr reply \<noteq> None"
    and len: "2 \<le> length (rxBuf (sh2 s (unit_ev event)))"
  shows "\<exists>s'. halTask_body cfg reply event s = Returned () s'"
proof -
  from i2cBlockingRx_returns [OF free ans]
  obtain st buf s1 where
    rx: "i2cBlockingRx reply (ucast (addr (sh2 s (unit_ev event)))) (rxBuf (sh2 s (unit_ev event)))
              (readLen_of cfg (rxRemaining (sh2 s (unit_ev event)))) s = Returned (st, buf) s1"
    and l: "length buf = length (rxBuf (sh2 s (unit_ev event)))"
    by blast
  from l len cargoLen_of_Some [of buf] obtain c where "cargoLen_of buf = Some c" by auto
  with rx u i cb show ?thesis
    by (simp add: halTask_body_def Let_def)
qed

lemma i2cBlockingTx_ReturnedD:
  assumes "i2cBlockingTx reply a p len s = Returned x s1"
  shows "\<not> i2cMutex s \<and> sh2 s1 = sh2 s \<and> evtQueue s1 = evtQueue s \<and> \<not> i2cMutex s1
       \<and> \<not> i2cResetNeeded s1
       \<and> trace s1 = trace s @ xfer_trace (i2cResetNeeded s) (I2cTransmitIT a p len) (rc reply = 0)
       \<and> x = (if rc reply = 0 then i2cStatus (run_isr (isr reply) s) else SH2_ERR_IO)"
  using assms
  by (auto simp: i2cBlockingTx_def take_i2cMutex_def take_i2cBlockSem_def give_i2cMutex_def
        i2cReset_def log_def Let_def xfer_trace_def run_isr_status
        split: if_splits option.splits)

lemma i2cBlockingTx_returns:
  assumes "\<not> i2cMutex s" and "rc reply \<noteq> 0 \<or> isr reply \<noteq> None"
  shows "\<exists>st s1. i2cBlockingTx reply a p len s = Returned st s1"
  using assms
  by (auto simp: i2cBlockingTx_def take_i2cMutex_def take_i2cBlockSem_def Let_def run_isr_status)

lemma last_xfer_trace [simp]: "last (tr @ xfer_trace r a w) = MutexGive"
  by (simp add: xfer_trace_def)

lemma halTask_body_ignored:
  assumes "SH2_UNITS cfg \<le> unit_ev event \<or> id_ev event \<noteq> EVT_INTN
             \<or> onRx (sh2 s (unit_ev event)) = 0"
  shows "halTask_body cfg reply event s = Returned () s"
  using assms by (auto simp: halTask_body_def Let_def)

lemma new_actions_app [simp]: "new_actions s (s'\<lparr>trace := trace s @ as\<rparr>) = as"
  by (simp add: new_actions_def)

lemma i2cBlockingTx_transfer:
  assumes "\<not> i2cMutex s"
  shows "\<exists>s'. last_state (i2cBlockingTx reply a p len s) = Some s'
           \<and> filter is_transfer (new_actions s s') = [I2cTransmitIT a p len]"
  using assms
  by (auto simp: i2cBlockingTx_def take_i2cMutex_def take_i2cBlockSem_def give_i2cMutex_def
        i2cReset_def log_def Let_def new_actions_def split: option.splits)

lemma i2cBlockingRx_transfer:
  assumes "\<not> i2cMutex s"
  shows "\<exists>s'. last_state (i2cBlockingRx reply a p len s) = Some s'
           \<and> filter is_transfer (new_actions s s') = [I2cReceiveIT a len]"
  using assms
  by (auto simp: i2cBlockingRx_def take_i2cMutex_def take_i2cBlockSem_def give_i2cMutex_def
        i2cReset_def log_def Let_def new_actions_def split: option.splits)

lemma call_ok_refl [simp]: "call_ok c s s"
  by (simp add: call_ok_def)

lemma call_line_SomeD:
  "call_line f b s = Some s' \<Longrightarrow> \<exists>pin. s' = log [GpioWritePin pin b] s"
  by (cases "(f, b, s)" rule: call_line.cases) (auto simp: rstn0_def bootn0_def)

lemma sh2_hal_reset_ReturnedD:
  assumes "sh2_hal_reset cfg unit dfuMode cb cookie s = Returned st s'"
  shows "(SH2_UNITS cfg \<le> unit \<and> st = SH2_ERR_BAD_PARAM \<and> s' = s)
       \<or> (unit < SH2_UNITS cfg \<and> st = SH2_OK \<and> \<not> i2cMutex s \<and> \<not> i2cMutex s' \<and> i2cResetNeeded s'
          \<and> evtQueue s' = evtQueue s
          \<and> sh2 s' = (sh2 s)(unit := (sh2 s unit)\<lparr>onRx := cb, onRxCookie := cookie,
                                                   addr := unit_addr unit dfuMode\<rparr>)
          \<and> (\<exists>as. trace s' = trace s @ as \<and> \<not> list_ex is_reinit as \<and> \<not> list_ex is_transfer as))"
proof (cases "SH2_UNITS cfg \<le> unit")
  case True
  with assms show ?thesis by (simp add: sh2_hal_reset_def)
next
  case False
  with assms show ?thesis
    by (auto simp: sh2_hal_reset_def take_i2cMutex_def give_i2cMutex_def log_def Let_def
          vTaskDelay_def split: if_splits option.splits dest!: call_line_SomeD)
qed


lemma xfer_trace_props [simp]:
  "list_ex is_reinit (xfer_trace r a w) = (r \<or> is_reinit a)"
  "list_ex is_transfer (xfer_trace r a w) = is_transfer a"
  by (auto simp: xfer_trace_def)

lemma call_ok_Reset:
  assumes "sh2_hal_reset cfg unit dfuMode cb cookie s = Returned st s'"
  shows "call_ok (Reset unit dfuMode cb cookie) s s'"
  using sh2_hal_reset_ReturnedD [OF assms]
  by (auto simp: call_ok_def)

lemma call_ok_Tx:
  assumes "sh2_hal_tx cfg reply unit pData len s = Returned st s'"
  shows "call_ok (Tx reply unit pData len) s s'"
proof (cases "SH2_UNITS cfg \<le> unit \<or> len = 0")
  case True
  with assms show ?thesis by (auto simp: sh2_hal_tx_def split: if_splits)
next
  case False
  with assms have "i2cBlockingTx reply (ucast (addr (sh2 s unit))) pData len s = Returned st s'"
    by (simp add: sh2_hal_tx_def)
  from i2cBlockingTx_ReturnedD [OF this] show ?thesis
    by (auto simp: call_ok_def)
qed

lemma call_ok_Rx:
  assumes "sh2_hal_rx cfg reply unit pData len s = Returned x s'"
  shows "call_ok (Rx reply unit pData len) s s'"
proof (cases "SH2_UNITS cfg \<le> unit \<or> len = 0")
  case True
  with assms show ?thesis by (auto simp: sh2_hal_rx_def split: if_splits)
next
  case False
  with assms have "i2cBlockingRx reply (ucast (addr (sh2 s unit))) pData len s = Returned x s'"
    by (simp add: sh2_hal_rx_def)
  from i2cBlockingRx_ReturnedD [OF this] show ?thesis
    by (auto simp: call_ok_def)
qed

lemma call_ok_Block:
  assumes "sh2_hal_block cfg unit s = Returned st s'"
  shows "call_ok (Block unit) s s'"
  using assms
  by (auto simp: sh2_hal_block_def call_ok_def log_def split: if_splits)

lemma call_ok_Unblock:
  assumes "sh2_hal_unblock cfg unit s = Returned st s'"
  shows "call_ok (Unblock unit) s s'"
  using assms
  by (auto simp: sh2_hal_unblock_def call_ok_def log_def split: if_splits)

lemma call_ok_ExtiIrq: "call_ok (ExtiIrq n tick) s (HAL_GPIO_EXTI_Callback n tick s)"
  by (auto simp: HAL_GPIO_EXTI_Callback_def xQueueSend_def call_ok_def only_unit0_def Let_def)

lemma halTask_body_effect:
  assumes "halTask_body cfg reply event s = Returned x s'"
  shows "(\<exists>as. trace s' = trace s @ as
            \<and> (\<not> i2cResetNeeded s \<longrightarrow> \<not> i2cResetNeeded s' \<and> \<not> list_ex is_reinit as)
            \<and> (i2cResetNeeded s \<and> \<not> list_ex is_transfer as \<longrightarrow> i2cResetNeeded s'))
       \<and> (\<not> i2cMutex s \<longrightarrow> \<not> i2cMutex s')
       \<and> (\<forall>u. addr (sh2 s' u) = addr (sh2 s u) \<and> onRx (sh2 s' u) = onRx (sh2 s u)
              \<and> onRxCookie (sh2 s' u) = onRxCookie (sh2 s u))
       \<and> (\<forall>u. u \<noteq> unit_ev event \<longrightarrow> sh2 s' u = sh2 s u)
       \<and> evtQueue s' = evtQueue s"
proof (cases "SH2_UNITS cfg \<le> unit_ev event \<or> id_ev event \<noteq> EVT_INTN
             \<or> onRx (sh2 s (unit_ev event)) = 0")
  case True
  from halTask_body_ignored [OF True, of reply] assms show ?thesis by simp
next
  case False
  then have u: "unit_ev event < SH2_UNITS cfg" and i: "id_ev event = EVT_INTN"
    and cb: "onRx (sh2 s (unit_ev event)) \<noteq> 0" by auto
  from halTask_body_read [OF u i cb assms]
  obtain status buf s1 c where
    rx: "i2cBlockingRx reply (ucast (addr (sh2 s (unit_ev event)))) (rxBuf (sh2 s (unit_ev event)))
              (readLen_of cfg (rxRemaining (sh2 s (unit_ev event)))) s = Returned (status, buf) s1"
    and s': "s' = log [OnRxCall (onRx (sh2 s (unit_ev event))) (onRxCookie (sh2 s (unit_ev event))) buf
                       (readLen_of cfg (rxRemaining (sh2 s (unit_ev event)))) (t_ms event * 1000)]
                  (s1\<lparr>sh2 := (sh2 s)(unit_ev event := (sh2 s (unit_ev event))
                         \<lparr>rxBuf := buf,
                          rxRemaining := rxRemaining_of c
                             (readLen_of cfg (rxRemaining (sh2 s (unit_ev event))))\<rparr>)\<rparr>)"
    by blast
  from i2cBlockingRx_ReturnedD [OF rx] show ?thesis
    by (auto simp: s' log_def)
qed

lemma call_ok_TaskTurn:
  assumes "do_call cfg (TaskTurn reply) s = Some s'"
  shows "call_ok (TaskTurn reply) s s'"
proof (cases "evtQueue s")
  case Nil
  with assms show ?thesis by simp
next
  case (Cons event q)
  with assms obtain x where
    b: "halTask_body cfg reply event (s\<lparr>evtQueue := q\<rparr>) = Returned x s'"
    by (cases "halTask_body cfg reply event (s\<lparr>evtQueue := q\<rparr>)") auto
  from halTask_body_effect [OF b] Cons show ?thesis
    by (auto simp: call_ok_def only_unit0_def)
qed

lemma do_call_ok:
  assumes "do_call cfg c s = Some s'"
  shows "call_ok c s s'"
proof (cases c)
  case (Reset unit dfuMode cb cookie)
  with assms show ?thesis
    by (cases "sh2_hal_reset cfg unit dfuMode cb cookie s") (auto dest: call_ok_Reset)
next
  case (Tx reply unit pData len)
  with assms show ?thesis
    by (cases "sh2_hal_tx cfg reply unit pData len s") (auto dest: call_ok_Tx)
next
  case (Rx reply unit pData len)
  with assms show ?thesis
    by (cases "sh2_hal_rx cfg reply unit pData len s") (auto dest: call_ok_Rx)
next
  case (Block unit)
  with assms show ?thesis
    by (cases "sh2_hal_block cfg unit s") (auto dest: call_ok_Block)
next
  case (Unblock unit)
  with assms show ?thesis
    by (cases "sh2_hal_unblock cfg unit s") (auto dest: call_ok_Unblock)
next
  case (ExtiIrq n tick)
  with assms show ?thesis by (auto simp: call_ok_ExtiIrq)
next
  case (TaskTurn reply)
  from assms show ?thesis unfolding TaskTurn by (rule call_ok_TaskTurn)
qed

text \<open>The same for a run.\<close>

lemma run_ok:
  assumes "run cfg cs s = Some s'"
  shows "(\<exists>as. trace s' = trace s @ as
            \<and> (\<not> list_ex is_Reset cs \<and> \<not> i2cResetNeeded s
                  \<longrightarrow> \<not> i2cResetNeeded s' \<and> \<not> list_ex is_reinit as)
            \<and> (i2cResetNeeded s \<and> \<not> list_ex is_transfer as \<longrightarrow> i2cResetNeeded s'))
       \<and> (\<not> i2cMutex s \<longrightarrow> \<not> i2cMutex s')
       \<and> (\<forall>u. \<not> list_ex (resets_unit u) cs \<longrightarrow> addr (sh2 s' u) = addr (sh2 s u))
       \<and> (only_unit0 (evtQueue s) \<longrightarrow> only_unit0 (evtQueue s'))"
  using assms
proof (induction cs arbitrary: s)
  case Nil
  then show ?case by simp
next
  case (Cons c cs)
  from Cons.prems obtain s1 where c: "do_call cfg c s = Some s1" and r: "run cfg cs s1 = Some s'"
    by (auto split: option.splits)
  from do_call_ok [OF c] have 1: "call_ok c s s1" .
  from Cons.IH [OF r] 1 show ?case
    unfolding call_ok_def
    apply (elim conjE exE)
    subgoal for as bs
      apply (intro conjI)
         apply (rule exI [of _ "bs @ as"])
         apply (auto)
      done
    done
qed


lemma new_actions_append: "trace s' = trace s @ as \<Longrightarrow> new_actions s s' = as"
  by (simp add: new_actions_def)

lemma uint_unit_addr:
  "uint (unit_addr unit dfuMode)
     = 2 * (if unit = 1 then (if dfuMode then ADDR_DFU_1 else ADDR_SH2_1)
            else (if dfuMode then ADDR_DFU_0 else ADDR_SH2_0))"
  by (simp add: unit_addr_def ADDR_DFU_0_def ADDR_DFU_1_def ADDR_SH2_0_def ADDR_SH2_1_def)

lemma run_example:
  "run example_config [ExtiIrq 0 5, TaskTurn first_chunk_reply] listening_state
     = Some mid_message_state"
proof -
  have "HAL_GPIO_EXTI_Callback 0 5 listening_state = listening_state\<lparr>evtQueue := [intn_event]\<rparr>"
    by (simp add: HAL_GPIO_EXTI_Callback_def xQueueSend_def MAX_EVENTS_def fixture_defs)
  moreover have "listening_state\<lparr>evtQueue := []\<rparr> = listening_state"
    by (simp add: fixture_defs)
  ultimately show ?thesis
    by (simp add: first_chunk_example)
qed

lemma i2cBlockingRx_reinit:
  assumes "\<not> i2cMutex s"
  shows "\<exists>s'. last_state (i2cBlockingRx reply a p len s) = Some s' \<and> \<not> i2cResetNeeded s'
           \<and> (if i2cResetNeeded s
               then take 4 (new_actions s s') = [MutexTake, I2cDeInit, I2cInit, I2cReceiveIT a len]
               else \<not> list_ex is_reinit (new_actions s s'))"
  using assms
  by (auto simp: i2cBlockingRx_def take_i2cMutex_def take_i2cBlockSem_def give_i2cMutex_def
        i2cReset_def log_def Let_def new_actions_def split: option.splits)

lemma i2cBlockingTx_reinit:
  assumes "\<not> i2cMutex s"
  shows "\<exists>s'. last_state (i2cBlockingTx reply a p len s) = Some s' \<and> \<not> i2cResetNeeded s'
           \<and> (if i2cResetNeeded s
               then take 4 (new_actions s s') = [MutexTake, I2cDeInit, I2cInit, I2cTransmitIT a p len]
               else \<not> list_ex is_reinit (new_actions s s'))"
  using assms
  by (auto simp: i2cBlockingTx_def take_i2cMutex_def take_i2cBlockSem_def give_i2cMutex_def
        i2cReset_def log_def Let_def new_actions_def split: option.splits)

lemma i2cBlockingRx_BlockedD:
  assumes "i2cBlockingRx reply a p len s = Blocked s'"
  shows "sh2 s' = sh2 s \<and> evtQueue s' = evtQueue s
       \<and> (\<exists>as. trace s' = trace s @ as \<and> list_all (\<lambda>x. x \<in> {MutexTake, I2cDeInit, I2cInit, I2cReceiveIT a len}) as)"
  using assms
  by (auto simp: i2cBlockingRx_def take_i2cMutex_def take_i2cBlockSem_def give_i2cMutex_def
        i2cReset_def log_def Let_def split: if_splits option.splits)

lemma halTask_body_unit:
  assumes "last_state (halTask_body cfg reply event s) = Some s'"
  shows "(\<forall>u. u \<noteq> unit_ev event \<longrightarrow> sh2 s' u = sh2 s u)
       \<and> (\<forall>u. addr (sh2 s' u) = addr (sh2 s u) \<and> onRx (sh2 s' u) = onRx (sh2 s u)
              \<and> onRxCookie (sh2 s' u) = onRxCookie (sh2 s u))
       \<and> evtQueue s' = evtQueue s
       \<and> (\<exists>as. trace s' = trace s @ as \<and> list_all (action_of_unit (sh2 s (unit_ev event))) as)"
proof (cases "halTask_body cfg reply event s")
  case (Returned x s1)
  with assms have r: "halTask_body cfg reply event s = Returned x s'" by simp
  show ?thesis
  proof (cases "SH2_UNITS cfg \<le> unit_ev event \<or> id_ev event \<noteq> EVT_INTN
             \<or> onRx (sh2 s (unit_ev event)) = 0")
    case True
    from halTask_body_ignored [OF True, of reply] r show ?thesis by simp
  next
    case False
    then have u: "unit_ev event < SH2_UNITS cfg" and i: "id_ev event = EVT_INTN"
      and cb: "onRx (sh2 s (unit_ev event)) \<noteq> 0" by auto
    from halTask_body_read [OF u i cb r]
    obtain status buf s1 c where
      rx: "i2cBlockingRx reply (ucast (addr (sh2 s (unit_ev event)))) (rxBuf (sh2 s (unit_ev event)))
              (readLen_of cfg (rxRemaining (sh2 s (unit_ev event)))) s = Returned (status, buf) s1"
      and s': "s' = log [OnRxCall (onRx (sh2 s (unit_ev event))) (onRxCookie (sh2 s (unit_ev event))) buf
                       (readLen_of cfg (rxRemaining (sh2 s (unit_ev event)))) (t_ms event * 1000)]
                  (s1\<lparr>sh2 := (sh2 s)(unit_ev event := (sh2 s (unit_ev event))
                         \<lparr>rxBuf := buf,
                          rxRemaining := rxRemaining_of c
                             (readLen_of cfg (rxRemaining (sh2 s (unit_ev event))))\<rparr>)\<rparr>)"
      by blast
    from i2cBlockingRx_ReturnedD [OF rx] show ?thesis
      by (auto simp: s' log_def xfer_trace_def)
  qed
next
  case (Blocked s1)
  with assms have b: "halTask_body cfg reply event s = Blocked s'" by simp
  then have "i2cBlockingRx reply (ucast (addr (sh2 s (unit_ev event)))) (rxBuf (sh2 s (unit_ev event)))
              (readLen_of cfg (rxRemaining (sh2 s (unit_ev event)))) s = Blocked s'"
    by (auto simp: halTask_body_def Let_def
          split: if_splits result.splits option.splits prod.splits)
  from i2cBlockingRx_BlockedD [OF this] show ?thesis
    by (fastforce simp: list_all_iff)
next
  case Faulted
  with assms show ?thesis by simp
qed

lemma halTask_unit0:
  "only_unit0 (evtQueue s) \<Longrightarrow> last_state (halTask cfg replies s) = Some s' \<Longrightarrow>
     (\<forall>u. u \<noteq> 0 \<longrightarrow> sh2 s' u = sh2 s u)
   \<and> addr (sh2 s' 0) = addr (sh2 s 0) \<and> onRx (sh2 s' 0) = onRx (sh2 s 0)
   \<and> onRxCookie (sh2 s' 0) = onRxCookie (sh2 s 0)
   \<and> (\<exists>as. trace s' = trace s @ as \<and> list_all (action_of_unit (sh2 s 0)) as)"
proof (induction cfg replies s rule: halTask.induct)
  case (1 cfg replies s)
  show ?case
  proof (cases "evtQueue s")
    case Nil
    with "1.prems" show ?thesis by (subst (asm) halTask.simps) simp
  next
    case (Cons event q)
    let ?r = "case replies of [] \<Rightarrow> silent_reply | r # _ \<Rightarrow> r"
    let ?s0 = "s\<lparr>evtQueue := q\<rparr>"
    from Cons "1.prems"(1) have e: "unit_ev event = 0" and q: "only_unit0 q"
      by (simp_all add: only_unit0_def)
    show ?thesis
    proof (cases "halTask_body cfg ?r event ?s0")
      case (Returned x s1)
      with Cons "1.prems"(2) have l: "last_state (halTask cfg (tl replies) s1) = Some s'"
        by (subst (asm) halTask.simps) simp
      from Returned have "last_state (halTask_body cfg ?r event ?s0) = Some s1" by simp
      from halTask_body_unit [OF this] e
      have b: "\<forall>u. u \<noteq> 0 \<longrightarrow> sh2 s1 u = sh2 s u"
        "addr (sh2 s1 0) = addr (sh2 s 0)" "onRx (sh2 s1 0) = onRx (sh2 s 0)"
        "onRxCookie (sh2 s1 0) = onRxCookie (sh2 s 0)" "evtQueue s1 = q"
        and "\<exists>as. trace s1 = trace s @ as \<and> list_all (action_of_unit (sh2 s 0)) as"
        by simp_all
      then obtain as where as: "trace s1 = trace s @ as" "list_all (action_of_unit (sh2 s 0)) as"
        by blast
      from b q have "only_unit0 (evtQueue s1)" by simp
      from "1.IH" [OF Cons Returned this l]
      have i: "\<forall>u. u \<noteq> 0 \<longrightarrow> sh2 s' u = sh2 s1 u"
        "addr (sh2 s' 0) = addr (sh2 s1 0)" "onRx (sh2 s' 0) = onRx (sh2 s1 0)"
        "onRxCookie (sh2 s' 0) = onRxCookie (sh2 s1 0)"
        and "\<exists>bs. trace s' = trace s1 @ bs \<and> list_all (action_of_unit (sh2 s1 0)) bs"
        by simp_all
      then obtain bs where bs: "trace s' = trace s1 @ bs" "list_all (action_of_unit (sh2 s1 0)) bs"
        by blast
      have same: "action_of_unit (sh2 s1 0) a = action_of_unit (sh2 s 0) a" for a
        using b by (cases a) simp_all
      from bs same have "list_all (action_of_unit (sh2 s 0)) bs" by (simp add: list_all_iff)
      with as bs have "trace s' = trace s @ (as @ bs) \<and> list_all (action_of_unit (sh2 s 0)) (as @ bs)"
        by simp
      then have "\<exists>cs. trace s' = trace s @ cs \<and> list_all (action_of_unit (sh2 s 0)) cs" by blast
      with b i show ?thesis by simp
    next
      case (Blocked s1)
      with Cons "1.prems"(2) have "s1 = s'"
        by (subst (asm) halTask.simps) simp
      with Blocked have "last_state (halTask_body cfg ?r event ?s0) = Some s'" by simp
      from halTask_body_unit [OF this] e show ?thesis by simp
    next
      case Faulted
      with Cons "1.prems"(2) show ?thesis by (subst (asm) halTask.simps) simp
    qed
  qed
qed

lemma exti_example:
  "HAL_GPIO_EXTI_Callback 3 5 listening_state = listening_state\<lparr>evtQueue := [intn_event]\<rparr>"
  by (simp add: HAL_GPIO_EXTI_Callback_def xQueueSend_def MAX_EVENTS_def fixture_defs)

lemma halTask_example:
  "halTask example_config [first_chunk_reply] (listening_state\<lparr>evtQueue := [intn_event]\<rparr>)
     = Blocked mid_message_state"
proof -
  have 1: "listening_state\<lparr>evtQueue := []\<rparr> = listening_state"
    and 2: "evtQueue mid_message_state = []"
    by (simp_all add: fixture_defs2)
  have "halTask example_config [first_chunk_reply] (listening_state\<lparr>evtQueue := [intn_event]\<rparr>)
     = halTask example_config [] mid_message_state"
    by (subst halTask.simps) (simp add: 1 first_chunk_example)
  also have "\<dots> = Blocked mid_message_state"
    by (subst halTask.simps) (simp add: 2)
  finally show ?thesis .
qed

lemma call_line_Some: "f \<noteq> None \<Longrightarrow> \<exists>pin. call_line f b s = Some (log [GpioWritePin pin b] s)"
  by (cases "(f, b, s)" rule: call_line.cases) (auto simp: rstn0_def bootn0_def)

lemma sh2_hal_reset_returns:
  assumes u: "unit < SH2_UNITS cfg" and m: "\<not> i2cMutex s"
    and r: "rstn (sh2 s unit) \<noteq> None" and b: "bootn (sh2 s unit) \<noteq> None"
  shows "\<exists>s1. sh2_hal_reset cfg unit dfuMode cb cookie s = Returned SH2_OK s1 \<and> i2cResetNeeded s1"
proof -
  define s3 where "s3 = (log [MutexTake] (s\<lparr>i2cMutex := True\<rparr>))
      \<lparr>sh2 := (sh2 s)(unit := (sh2 s unit)\<lparr>onRx := cb, onRxCookie := cookie,
                                           addr := unit_addr unit dfuMode\<rparr>)\<rparr>"
  have l: "rstn (sh2 s3 unit) = rstn (sh2 s unit)" "bootn (sh2 s3 unit) = bootn (sh2 s unit)"
    by (simp_all add: s3_def log_def)
  from call_line_Some [OF r, of False s3] obtain p1 where
    1: "call_line (rstn (sh2 s unit)) False s3 = Some (log [GpioWritePin p1 False] s3)" by blast
  let ?s4 = "log [GpioWritePin p1 False] s3"
  from call_line_Some [OF b, of "\<not> dfuMode" ?s4] obtain p2 where
    2: "call_line (bootn (sh2 s unit)) (\<not> dfuMode) ?s4 = Some (log [GpioWritePin p2 (\<not> dfuMode)] ?s4)"
    by blast
  let ?s5 = "log [GpioWritePin p2 (\<not> dfuMode)] ?s4"
  from call_line_Some [OF r, of True "vTaskDelay RESET_DELAY ?s5"] obtain p3 where
    3: "call_line (rstn (sh2 s unit)) True (vTaskDelay RESET_DELAY ?s5)
          = Some (log [GpioWritePin p3 True] (vTaskDelay RESET_DELAY ?s5))" by blast
  from u m 1 2 3 show ?thesis
    by (simp add: sh2_hal_reset_def take_i2cMutex_def give_i2cMutex_def Let_def s3_def log_def
          vTaskDelay_def)
qed

section \<open>Arithmetic of the read length and the header\<close>

lemma unat_ucast_16_32: "unat (ucast (r :: 16 word) :: 32 word) = unat r"
proof -
  have "unat r < 2 ^ 16" using unsigned_less [of r, where 'a = nat] by simp
  then show ?thesis by (simp add: unsigned_ucast_eq take_bit_nat_eq_self)
qed

lemma unat_ucast_8_32: "unat (ucast (r :: 8 word) :: 32 word) = unat r"
proof -
  have "unat r < 2 ^ 8" using unsigned_less [of r, where 'a = nat] by simp
  then show ?thesis by (simp add: unsigned_ucast_eq take_bit_nat_eq_self)
qed

lemma unat_readLen_of:
  "unat (readLen_of cfg r) = min (max (unat r) 4) (unat (SH2_HAL_MAX_TRANSFER cfg))"
  by (auto simp: readLen_of_def Let_def SHTP_HEADER_LEN_def word_less_nat_alt unat_ucast_16_32
      min_def max_def not_less)

lemma cargo_sum:
  fixes b0 b1 :: "8 word"
  shows "unat ((push_bit 8 (ucast b1) + ucast b0 :: 32 word)) = unat b1 * 256 + unat b0"
proof -
  have b0: "unat b0 < 256" and b1: "unat b1 < 256"
    using unsigned_less [of b0, where 'a = nat] unsigned_less [of b1, where 'a = nat] by simp_all
  have "push_bit 8 (ucast b1 :: 32 word) = ucast b1 * 256"
    by (simp add: push_bit_eq_mult)
  moreover have "unat (ucast b1 * 256 :: 32 word) = unat b1 * 256"
    using b1 by (simp add: unat_word_ariths(2) unat_ucast_8_32)
  ultimately have "unat (push_bit 8 (ucast b1 :: 32 word)) = unat b1 * 256"
    by (simp only:)
  then show ?thesis
    using b0 b1 by (simp only: unat_word_ariths(1) unat_ucast_8_32) simp
qed

lemma and_not_8000:
  fixes x :: "32 word"
  assumes "unat x < 65536"
  shows "unat (x AND NOT 0x8000) = unat x mod 32768"
proof -
  define m :: "32 word" where "m = 2 ^ 15"
  have bm: "bit m n \<longleftrightarrow> n = 15" for n
    by (simp only: m_def bit_exp_iff) (auto simp: possible_bit_word)
  have "unat x < 2 ^ 16" using assms by simp
  then have t: "take_bit 16 (unat x) = unat x"
    by (simp add: take_bit_nat_eq_self)
  have hi: "n < 16" if "bit x n" for n
  proof -
    have "bit (unat x) n = bit (take_bit 16 (unat x)) n" by (simp add: t)
    moreover from that have "bit (unat x) n" by (simp add: bit_unsigned_iff)
    ultimately show ?thesis by (simp add: bit_take_bit_iff)
  qed
  have "x AND NOT m = take_bit 15 x"
  proof (rule bit_word_eqI)
    fix n assume "n < LENGTH(32)"
    show "bit (x AND NOT m) n = bit (take_bit 15 x) n"
      using hi [of n] by (cases "bit x n") (auto simp: bit_and_iff bit_not_iff bm bit_take_bit_iff)
  qed
  moreover have "m = 0x8000" by (simp add: m_def)
  ultimately have e: "x AND NOT 0x8000 = take_bit 15 x" by (simp only:)
  have "unat (take_bit 15 x) = unat x mod 32768"
    by (simp only: unsigned_take_bit_eq) (simp add: take_bit_eq_mod)
  then show ?thesis by (simp only: e)
qed

lemma unat_rxRemaining_of:
  assumes "unat c < 32768"
  shows "unat (rxRemaining_of c l) = (if unat c > unat l then unat c - unat l + 4 else 0)"
proof (cases "l < c")
  case True
  then have lt: "unat l < unat c" by (simp add: word_less_nat_alt)
  from True have "unat (c - l) = unat c - unat l" by (simp add: unat_sub)
  with assms lt have s: "unat (c - l + 4) = unat c - unat l + 4"
    by (simp add: unat_word_ariths)
  have "unat (ucast (c - l + 4) :: 16 word) = unat c - unat l + 4"
    using assms lt by (simp add: unsigned_ucast_eq s take_bit_nat_eq_self)
  with True lt show ?thesis by (simp add: rxRemaining_of_def SHTP_HEADER_LEN_def)
next
  case False
  then have "\<not> unat l < unat c" by (simp add: word_less_nat_alt)
  with False show ?thesis by (simp add: rxRemaining_of_def)
qed

lemma cargo_sum_bound:
  fixes b0 b1 :: "8 word"
  shows "unat (push_bit 8 (ucast b1) + ucast b0 :: 32 word) < 65536"
proof -
  have "unat b0 < 256" and "unat b1 < 256"
    using unsigned_less [of b0, where 'a = nat] unsigned_less [of b1, where 'a = nat] by simp_all
  then have "unat b1 * 256 + unat b0 < 65536" by simp
  then show ?thesis by (simp only: cargo_sum)
qed

lemma cargoLen_of_bound: "cargoLen_of buf = Some c \<Longrightarrow> unat c < 32768"
proof (cases buf rule: cargoLen_of.cases)
  case (1 b0 b1 rest)
  assume "cargoLen_of buf = Some c"
  with 1 have "c = (push_bit 8 (ucast b1) + ucast b0) AND NOT 0x8000"
    by (simp only: cargoLen_of.simps option.inject)
  with and_not_8000 [OF cargo_sum_bound, of b1 b0]
  have "unat c = unat (push_bit 8 (ucast b1) + ucast b0 :: 32 word) mod 32768"
    by (simp only:)
  then show ?thesis by simp
qed simp_all

section \<open>Header decode\<close>

text \<open>
  Claim C4. The cargo length the worker task takes from a received buffer is the 16-bit
  little-endian value of the first two bytes with bit 15, the continuation flag, cleared:
  \<open>(buf[1] * 256 + buf[0]) mod 32768\<close>. This holds for every buffer that has the two
  bytes, whatever follows them.
\<close>

theorem cargoLen_header_decode:
  "map_option unat (cargoLen_of (b0 # b1 # rest)) = Some ((unat b1 * 256 + unat b0) mod 32768)"
proof -
  have "unat ((push_bit 8 (ucast b1) + ucast b0 :: 32 word) AND NOT 0x8000)
          = unat (push_bit 8 (ucast b1) + ucast b0 :: 32 word) mod 32768"
    by (rule and_not_8000 [OF cargo_sum_bound])
  also have "\<dots> = (unat b1 * 256 + unat b0) mod 32768"
    by (simp only: cargo_sum)
  finally show ?thesis
    by (simp only: cargoLen_of.simps option.map)
qed

section \<open>Read-length state machine\<close>

text \<open>
  Claim C1. For every unit, when the worker task handles an interrupt event of a unit
  with a registered callback, the length of the read is \<open>max (rxRemaining, 4)\<close> capped at
  \<^verbatim>\<open>SH2_HAL_MAX_TRANSFER\<close>. After that read of length \<open>L\<close>, with \<open>C\<close> the cargo length in
  the header of the buffer, \<^verbatim>\<open>rxRemaining\<close> is \<open>C - L + 4\<close> when \<open>C > L\<close> and \<open>0\<close>
  otherwise, so the next read length is \<open>min (max transfer, C - L + 4)\<close> when \<open>C > L\<close> and
  \<open>4\<close> otherwise. The turn returns when the mutex is free and the driver answers (by
  refusing the transfer or by an interrupt); the buffer holds at least the two length
  bytes, and the maximum transfer is at least one header.
\<close>

theorem halTask_read_length_state_machine:
  assumes u: "unit_ev event < SH2_UNITS cfg" and i: "id_ev event = EVT_INTN"
    and cb: "onRx (sh2 s (unit_ev event)) \<noteq> 0"
    and free: "\<not> i2cMutex s" and ans: "rc reply \<noteq> 0 \<or> isr reply \<noteq> None"
    and len: "2 \<le> length (rxBuf (sh2 s (unit_ev event)))"
    and mx: "4 \<le> unat (SH2_HAL_MAX_TRANSFER cfg)"
  shows "\<exists>s' C.
      halTask_body cfg reply event s = Returned () s'
    \<and> unat (readLen_of cfg (rxRemaining (sh2 s (unit_ev event))))
        = min (max (unat (rxRemaining (sh2 s (unit_ev event)))) 4) (unat (SH2_HAL_MAX_TRANSFER cfg))
    \<and> I2cReceiveIT (ucast (addr (sh2 s (unit_ev event))))
          (readLen_of cfg (rxRemaining (sh2 s (unit_ev event)))) \<in> set (trace s')
    \<and> map_option unat (cargoLen_of (rxBuf (sh2 s' (unit_ev event)))) = Some C
    \<and> unat (rxRemaining (sh2 s' (unit_ev event)))
        = (if C > unat (readLen_of cfg (rxRemaining (sh2 s (unit_ev event))))
           then C - unat (readLen_of cfg (rxRemaining (sh2 s (unit_ev event)))) + 4 else 0)
    \<and> unat (readLen_of cfg (rxRemaining (sh2 s' (unit_ev event))))
        = (if C > unat (readLen_of cfg (rxRemaining (sh2 s (unit_ev event))))
           then min (unat (SH2_HAL_MAX_TRANSFER cfg))
                  (C - unat (readLen_of cfg (rxRemaining (sh2 s (unit_ev event)))) + 4)
           else 4)"
proof -
  let ?u = "unit_ev event"
  let ?L = "readLen_of cfg (rxRemaining (sh2 s ?u))"
  from halTask_body_returns [OF u i cb free ans len]
  obtain s' where r: "halTask_body cfg reply event s = Returned () s'" by blast
  from halTask_body_read [OF u i cb r]
  obtain status buf s1 c where
    rx: "i2cBlockingRx reply (ucast (addr (sh2 s ?u))) (rxBuf (sh2 s ?u)) ?L s = Returned (status, buf) s1"
    and c: "cargoLen_of buf = Some c"
    and s': "s' = log [OnRxCall (onRx (sh2 s ?u)) (onRxCookie (sh2 s ?u)) buf ?L (t_ms event * 1000)]
                  (s1\<lparr>sh2 := (sh2 s)(?u := (sh2 s ?u)
                         \<lparr>rxBuf := buf, rxRemaining := rxRemaining_of c ?L\<rparr>)\<rparr>)"
    by blast
  from i2cBlockingRx_ReturnedD [OF rx]
  have tr: "trace s1 = trace s @ xfer_trace (i2cResetNeeded s) (I2cReceiveIT (ucast (addr (sh2 s ?u))) ?L) (rc reply = 0)"
    by simp
  have 1: "I2cReceiveIT (ucast (addr (sh2 s ?u))) ?L \<in> set (trace s')"
    by (simp add: s' log_def tr xfer_trace_def)
  have 2: "rxBuf (sh2 s' ?u) = buf" "rxRemaining (sh2 s' ?u) = rxRemaining_of c ?L"
    by (simp_all add: s' log_def)
  have cb: "unat c < 32768" by (rule cargoLen_of_bound [OF c])
  have 3: "unat (rxRemaining (sh2 s' ?u)) = (if unat c > unat ?L then unat c - unat ?L + 4 else 0)"
    by (simp only: 2 unat_rxRemaining_of [OF cb])
  have 4: "unat (readLen_of cfg (rxRemaining (sh2 s' ?u)))
        = (if unat c > unat ?L then min (unat (SH2_HAL_MAX_TRANSFER cfg)) (unat c - unat ?L + 4) else 4)"
    using mx by (simp only: unat_readLen_of [of cfg "rxRemaining (sh2 s' ?u)"] 3) auto
  show ?thesis
    apply (rule exI [of _ s'], rule exI [of _ "unat c"])
    using r 1 3 4 by (simp add: unat_readLen_of 2 c)
qed


theorem halTask_read_length_state_machine_witness:
  "\<exists>s'. halTask_body example_config first_chunk_reply intn_event listening_state = Returned () s'
      \<and> I2cReceiveIT 0x94 4 \<in> set (trace s')
      \<and> unat (rxRemaining (sh2 s' 0)) = 276
      \<and> unat (readLen_of example_config (rxRemaining (sh2 s' 0))) = 276"
proof -
  have h: "unit_ev intn_event < SH2_UNITS example_config" "id_ev intn_event = EVT_INTN"
    "onRx (sh2 listening_state (unit_ev intn_event)) \<noteq> 0" "\<not> i2cMutex listening_state"
    "rc first_chunk_reply \<noteq> 0 \<or> isr first_chunk_reply \<noteq> None"
    "2 \<le> length (rxBuf (sh2 listening_state (unit_ev intn_event)))"
    "4 \<le> unat (SH2_HAL_MAX_TRANSFER example_config)"
    by (simp_all add: fixture_defs)
  have e: "rxBuf (sh2 s' 0) = [0x14, 0x01, 0, 0] @ replicate 380 0"
    if "halTask_body example_config first_chunk_reply intn_event listening_state = Returned () s'" for s'
    using that by (auto simp add: fixture_defs hal_defs)
  from halTask_read_length_state_machine [OF h]
  show ?thesis
    apply (elim exE conjE)
    subgoal for s' C
      apply (rule exI [of _ s'])
      apply (frule e)
      apply (simp add: fixture_defs readLen_of_def SHTP_HEADER_LEN_def Let_def)
      done
    done
qed


section \<open>The bus transaction primitive\<close>

text \<open>
  Claim C2. A call of \<^verbatim>\<open>i2cBlockingRx\<close> or \<^verbatim>\<open>i2cBlockingTx\<close> that finds the mutex free
  returns \<^verbatim>\<open>SH2_ERR_IO\<close> when the driver refuses the transfer (non-zero return code) and
  when the error callback answers it, and \<^verbatim>\<open>SH2_OK\<close> when the completion callback
  answers it. On each of these paths the mutex is free again in the state the call
  leaves, giving it back is the last thing the call does, and a transaction that follows
  (and is answered) returns as well: it does not wait for the mutex.
\<close>

theorem i2cBlocking_status_and_unlock:
  assumes free: "\<not> i2cMutex s"
  shows "(rc reply \<noteq> 0 \<or> isr reply = Some ErrorIsr \<longrightarrow>
            (\<exists>buf s'. i2cBlockingRx reply a p len s = Returned (SH2_ERR_IO, buf) s'
                \<and> \<not> i2cMutex s' \<and> last (trace s') = MutexGive)
          \<and> (\<exists>s'. i2cBlockingTx reply a p len s = Returned SH2_ERR_IO s'
                \<and> \<not> i2cMutex s' \<and> last (trace s') = MutexGive))
       \<and> (rc reply = 0 \<and> isr reply = Some RxCplt \<longrightarrow>
            (\<exists>buf s'. i2cBlockingRx reply a p len s = Returned (SH2_OK, buf) s'
                \<and> \<not> i2cMutex s' \<and> last (trace s') = MutexGive))
       \<and> (rc reply = 0 \<and> isr reply = Some TxCplt \<longrightarrow>
            (\<exists>s'. i2cBlockingTx reply a p len s = Returned SH2_OK s'
                \<and> \<not> i2cMutex s' \<and> last (trace s') = MutexGive))
       \<and> (\<forall>s' reply2 a2 p2 len2.
            ((\<exists>x. i2cBlockingRx reply a p len s = Returned x s')
               \<or> (\<exists>y. i2cBlockingTx reply a p len s = Returned y s'))
            \<and> (rc reply2 \<noteq> 0 \<or> isr reply2 \<noteq> None) \<longrightarrow>
            state_after (i2cBlockingRx reply2 a2 p2 len2 s') \<noteq> None
          \<and> state_after (i2cBlockingTx reply2 a2 p2 len2 s') \<noteq> None)"
proof (intro conjI impI allI)
  assume f: "rc reply \<noteq> 0 \<or> isr reply = Some ErrorIsr"
  then have ans: "rc reply \<noteq> 0 \<or> isr reply \<noteq> None" by auto
  from i2cBlockingRx_returns [OF free ans, of a p len]
  obtain st buf s1 where r: "i2cBlockingRx reply a p len s = Returned (st, buf) s1" by blast
  from i2cBlockingRx_ReturnedD [OF r] f
  have "st = SH2_ERR_IO" "\<not> i2cMutex s1" "last (trace s1) = MutexGive"
    by (auto simp: HAL_I2C_MasterTxCpltCallback_def HAL_I2C_MasterRxCpltCallback_def
          HAL_I2C_ErrorCallback_def split: if_splits)
  with r show "\<exists>buf s'. i2cBlockingRx reply a p len s = Returned (SH2_ERR_IO, buf) s'
                \<and> \<not> i2cMutex s' \<and> last (trace s') = MutexGive" by simp
  from i2cBlockingTx_returns [OF free ans, of a p len]
  obtain st' s2 where t: "i2cBlockingTx reply a p len s = Returned st' s2" by blast
  from i2cBlockingTx_ReturnedD [OF t] f
  have "st' = SH2_ERR_IO" "\<not> i2cMutex s2" "last (trace s2) = MutexGive"
    by (auto simp: HAL_I2C_MasterTxCpltCallback_def HAL_I2C_MasterRxCpltCallback_def
          HAL_I2C_ErrorCallback_def split: if_splits)
  with t show "\<exists>s'. i2cBlockingTx reply a p len s = Returned SH2_ERR_IO s'
                \<and> \<not> i2cMutex s' \<and> last (trace s') = MutexGive" by simp
next
  assume f: "rc reply = 0 \<and> isr reply = Some RxCplt"
  then have ans: "rc reply \<noteq> 0 \<or> isr reply \<noteq> None" by auto
  from i2cBlockingRx_returns [OF free ans, of a p len]
  obtain st buf s1 where r: "i2cBlockingRx reply a p len s = Returned (st, buf) s1" by blast
  from i2cBlockingRx_ReturnedD [OF r] f
  have "st = SH2_OK" "\<not> i2cMutex s1" "last (trace s1) = MutexGive"
    by (auto simp: HAL_I2C_MasterTxCpltCallback_def HAL_I2C_MasterRxCpltCallback_def
          HAL_I2C_ErrorCallback_def split: if_splits)
  with r show "\<exists>buf s'. i2cBlockingRx reply a p len s = Returned (SH2_OK, buf) s'
                \<and> \<not> i2cMutex s' \<and> last (trace s') = MutexGive" by simp
next
  assume f: "rc reply = 0 \<and> isr reply = Some TxCplt"
  then have ans: "rc reply \<noteq> 0 \<or> isr reply \<noteq> None" by auto
  from i2cBlockingTx_returns [OF free ans, of a p len]
  obtain st' s2 where t: "i2cBlockingTx reply a p len s = Returned st' s2" by blast
  from i2cBlockingTx_ReturnedD [OF t] f
  have "st' = SH2_OK" "\<not> i2cMutex s2" "last (trace s2) = MutexGive"
    by (auto simp: HAL_I2C_MasterTxCpltCallback_def HAL_I2C_MasterRxCpltCallback_def
          HAL_I2C_ErrorCallback_def split: if_splits)
  with t show "\<exists>s'. i2cBlockingTx reply a p len s = Returned SH2_OK s'
                \<and> \<not> i2cMutex s' \<and> last (trace s') = MutexGive" by simp
next
  fix s' and reply2 :: bus_reply and a2 :: "32 word" and p2 :: "8 word list" and len2 :: "32 word"
  assume h: "((\<exists>x. i2cBlockingRx reply a p len s = Returned x s')
               \<or> (\<exists>y. i2cBlockingTx reply a p len s = Returned y s'))
            \<and> (rc reply2 \<noteq> 0 \<or> isr reply2 \<noteq> None)"
  then have free': "\<not> i2cMutex s'"
    by (auto dest: i2cBlockingRx_ReturnedD i2cBlockingTx_ReturnedD)
  from h have ans: "rc reply2 \<noteq> 0 \<or> isr reply2 \<noteq> None" by simp
  from i2cBlockingRx_returns [OF free' ans, of a2 p2 len2]
  show "state_after (i2cBlockingRx reply2 a2 p2 len2 s') \<noteq> None" by auto
  from i2cBlockingTx_returns [OF free' ans, of a2 p2 len2]
  show "state_after (i2cBlockingTx reply2 a2 p2 len2 s') \<noteq> None" by auto
qed

theorem i2cBlocking_status_and_unlock_witness:
  "\<not> i2cMutex ready_state
   \<and> (\<exists>buf s'. i2cBlockingRx refused_reply 0x94 [0, 0, 0, 0] 4 ready_state
                  = Returned (SH2_ERR_IO, buf) s' \<and> \<not> i2cMutex s')
   \<and> (\<exists>s'. i2cBlockingTx error_reply 0x94 [1, 2] 2 ready_state
                  = Returned SH2_ERR_IO s' \<and> \<not> i2cMutex s')
   \<and> (\<exists>buf s'. i2cBlockingRx first_chunk_reply 0x94 [0, 0, 0, 0] 4 ready_state
                  = Returned (SH2_OK, buf) s' \<and> \<not> i2cMutex s')
   \<and> (\<exists>s'. i2cBlockingTx tx_done_reply 0x94 [1, 2] 2 ready_state
                  = Returned SH2_OK s' \<and> \<not> i2cMutex s')"
proof -
  have h: "\<not> i2cMutex ready_state" by (simp add: ready_state_def)
  have r: "rc refused_reply \<noteq> 0" "rc error_reply = 0" "isr error_reply = Some ErrorIsr"
    "rc first_chunk_reply = 0" "isr first_chunk_reply = Some RxCplt"
    "rc tx_done_reply = 0" "isr tx_done_reply = Some TxCplt"
    by (simp_all add: fixture_defs2)
  note t = i2cBlocking_status_and_unlock [OF h]
  have 1: "\<exists>buf s'. i2cBlockingRx refused_reply 0x94 [0, 0, 0, 0] 4 ready_state
                  = Returned (SH2_ERR_IO, buf) s' \<and> \<not> i2cMutex s'"
    using t [of refused_reply "0x94" "[0, 0, 0, 0]" 4, THEN conjunct1] r by auto
  have 2: "\<exists>s'. i2cBlockingTx error_reply 0x94 [1, 2] 2 ready_state
                  = Returned SH2_ERR_IO s' \<and> \<not> i2cMutex s'"
    using t [of error_reply "0x94" "[1, 2]" 2, THEN conjunct1] r by auto
  have 3: "\<exists>buf s'. i2cBlockingRx first_chunk_reply 0x94 [0, 0, 0, 0] 4 ready_state
                  = Returned (SH2_OK, buf) s' \<and> \<not> i2cMutex s'"
    using t [of first_chunk_reply "0x94" "[0, 0, 0, 0]" 4, THEN conjunct2, THEN conjunct1] r
    by auto
  have 4: "\<exists>s'. i2cBlockingTx tx_done_reply 0x94 [1, 2] 2 ready_state
                  = Returned SH2_OK s' \<and> \<not> i2cMutex s'"
    using t [of tx_done_reply "0x94" "[1, 2]" 2, THEN conjunct2, THEN conjunct2, THEN conjunct1] r
    by auto
  from h 1 2 3 4 show ?thesis by simp
qed

section \<open>Calls with a bad unit number\<close>

text \<open>
  Claim C7. With a unit index at or beyond \<^verbatim>\<open>SH2_UNITS\<close>, each of \<^verbatim>\<open>sh2_hal_reset\<close>,
  \<^verbatim>\<open>sh2_hal_tx\<close>, \<^verbatim>\<open>sh2_hal_rx\<close>, \<^verbatim>\<open>sh2_hal_block\<close> and \<^verbatim>\<open>sh2_hal_unblock\<close> returns
  \<^verbatim>\<open>SH2_ERR_BAD_PARAM\<close> and leaves the whole state as it was: no unit and no global
  changes, and the trace gains no action (no semaphore taken, no transfer started).
\<close>

theorem bad_unit_rejected:
  assumes "SH2_UNITS cfg \<le> unit"
  shows "sh2_hal_reset cfg unit dfuMode cb cookie s = Returned SH2_ERR_BAD_PARAM s
       \<and> sh2_hal_tx cfg reply unit pData len s = Returned SH2_ERR_BAD_PARAM s
       \<and> sh2_hal_rx cfg reply unit pData len s = Returned (SH2_ERR_BAD_PARAM, pData) s
       \<and> sh2_hal_block cfg unit s = Returned SH2_ERR_BAD_PARAM s
       \<and> sh2_hal_unblock cfg unit s = Returned SH2_ERR_BAD_PARAM s"
  using assms
  by (simp add: sh2_hal_reset_def sh2_hal_tx_def sh2_hal_rx_def sh2_hal_block_def
        sh2_hal_unblock_def)

theorem bad_unit_rejected_witness:
  "SH2_UNITS example_config \<le> 1
   \<and> sh2_hal_reset example_config 1 True 1 7 ready_state = Returned SH2_ERR_BAD_PARAM ready_state
   \<and> sh2_hal_tx example_config first_chunk_reply 1 [1, 2] 2 ready_state
        = Returned SH2_ERR_BAD_PARAM ready_state
   \<and> sh2_hal_rx example_config first_chunk_reply 1 [0, 0] 2 ready_state
        = Returned (SH2_ERR_BAD_PARAM, [0, 0]) ready_state
   \<and> sh2_hal_block example_config 1 ready_state = Returned SH2_ERR_BAD_PARAM ready_state
   \<and> sh2_hal_unblock example_config 1 ready_state = Returned SH2_ERR_BAD_PARAM ready_state"
proof -
  have h: "SH2_UNITS example_config \<le> 1" by (simp add: example_config_def)
  from h bad_unit_rejected [OF h] show ?thesis by blast
qed

section \<open>Events the worker task drops\<close>

text \<open>
  Claim C8. When the unit index of a dequeued event is out of range, or its kind is not
  \<^verbatim>\<open>EVT_INTN\<close>, or the unit has no receive callback, the turn of the worker task returns
  with the state unchanged (no transfer, no unit touched), and the loop goes on with the
  rest of the queue: the event is consumed and nothing else happens.
\<close>

theorem halTask_ignored_event:
  assumes "SH2_UNITS cfg \<le> unit_ev event \<or> id_ev event \<noteq> EVT_INTN
             \<or> onRx (sh2 s (unit_ev event)) = 0"
  shows "halTask_body cfg reply event s = Returned () s
       \<and> halTask cfg replies (s\<lparr>evtQueue := event # q\<rparr>)
           = halTask cfg (tl replies) (s\<lparr>evtQueue := q\<rparr>)"
proof
  from assms show "halTask_body cfg reply event s = Returned () s"
    by (rule halTask_body_ignored)
  from assms have "SH2_UNITS cfg \<le> unit_ev event \<or> id_ev event \<noteq> EVT_INTN
             \<or> onRx (sh2 (s\<lparr>evtQueue := q\<rparr>) (unit_ev event)) = 0" by simp
  from halTask_body_ignored [OF this]
  show "halTask cfg replies (s\<lparr>evtQueue := event # q\<rparr>)
           = halTask cfg (tl replies) (s\<lparr>evtQueue := q\<rparr>)"
    by (subst halTask.simps) simp
qed

theorem halTask_ignored_event_witness:
  "halTask_body example_config first_chunk_reply \<lparr>t_ms = 5, id_ev = EVT_INTN, unit_ev = 1\<rparr>
      listening_state = Returned () listening_state
   \<and> halTask_body example_config first_chunk_reply \<lparr>t_ms = 5, id_ev = 3, unit_ev = 0\<rparr>
      listening_state = Returned () listening_state
   \<and> halTask_body example_config first_chunk_reply intn_event ready_state
      = Returned () ready_state"
proof -
  have "SH2_UNITS example_config \<le> unit_ev \<lparr>t_ms = 5, id_ev = EVT_INTN, unit_ev = 1\<rparr>"
    and "id_ev \<lparr>t_ms = 5, id_ev = 3, unit_ev = 0\<rparr> \<noteq> EVT_INTN"
    and "onRx (sh2 ready_state (unit_ev intn_event)) = 0"
    by (simp_all add: fixture_defs EVT_INTN_def)
  then show ?thesis
    using halTask_ignored_event [of example_config "\<lparr>t_ms = 5, id_ev = EVT_INTN, unit_ev = 1\<rparr>"
             listening_state first_chunk_reply]
      halTask_ignored_event [of example_config "\<lparr>t_ms = 5, id_ev = 3, unit_ev = 0\<rparr>"
             listening_state first_chunk_reply]
      halTask_ignored_event [of example_config intn_event ready_state first_chunk_reply]
    by blast
qed

section \<open>Zero-length transfers\<close>

text \<open>
  Claim C9. For a valid unit, \<^verbatim>\<open>sh2_hal_tx\<close> and \<^verbatim>\<open>sh2_hal_rx\<close> with length 0 return
  \<^verbatim>\<open>SH2_OK\<close> with the state unchanged: the mutex is not taken and no transfer is started.
  With a length other than 0 and the mutex free, the call starts exactly one transfer, at
  the address stored for the unit (whether the call then returns or waits for the
  driver's answer).
\<close>

theorem tx_rx_zero_length_and_transfer:
  assumes "unit < SH2_UNITS cfg"
  shows "(len = 0 \<longrightarrow>
            sh2_hal_tx cfg reply unit pData len s = Returned SH2_OK s
          \<and> sh2_hal_rx cfg reply unit pData len s = Returned (SH2_OK, pData) s)
       \<and> (len \<noteq> 0 \<and> \<not> i2cMutex s \<longrightarrow>
            (\<exists>s'. last_state (sh2_hal_tx cfg reply unit pData len s) = Some s'
               \<and> filter is_transfer (new_actions s s')
                   = [I2cTransmitIT (ucast (addr (sh2 s unit))) pData len])
          \<and> (\<exists>s'. last_state (sh2_hal_rx cfg reply unit pData len s) = Some s'
               \<and> filter is_transfer (new_actions s s')
                   = [I2cReceiveIT (ucast (addr (sh2 s unit))) len]))"
  using assms i2cBlockingTx_transfer [of s reply "ucast (addr (sh2 s unit))" pData len]
    i2cBlockingRx_transfer [of s reply "ucast (addr (sh2 s unit))" pData len]
  by (simp add: sh2_hal_tx_def sh2_hal_rx_def)

theorem tx_rx_zero_length_and_transfer_witness:
  "0 < SH2_UNITS example_config
   \<and> sh2_hal_tx example_config tx_done_reply 0 [] 0 listening_state = Returned SH2_OK listening_state
   \<and> sh2_hal_rx example_config first_chunk_reply 0 [] 0 listening_state
        = Returned (SH2_OK, []) listening_state
   \<and> (\<exists>s'. last_state (sh2_hal_tx example_config tx_done_reply 0 [1, 2] 2 listening_state) = Some s'
          \<and> filter is_transfer (new_actions listening_state s') = [I2cTransmitIT 0x94 [1, 2] 2])
   \<and> (\<exists>s'. last_state (sh2_hal_rx example_config first_chunk_reply 0 [0, 0, 0, 0] 4 listening_state)
              = Some s'
          \<and> filter is_transfer (new_actions listening_state s') = [I2cReceiveIT 0x94 4])"
proof -
  have h: "0 < SH2_UNITS example_config" by (simp add: example_config_def)
  have m: "\<not> i2cMutex listening_state" "ucast (addr (sh2 listening_state 0)) = (0x94 :: 32 word)"
    by (simp_all add: fixture_defs)
  from tx_rx_zero_length_and_transfer [OF h, of 0 tx_done_reply "[]" listening_state]
    tx_rx_zero_length_and_transfer [OF h, of 0 first_chunk_reply "[]" listening_state]
    tx_rx_zero_length_and_transfer [OF h, of 2 tx_done_reply "[1, 2]" listening_state]
    tx_rx_zero_length_and_transfer [OF h, of 4 first_chunk_reply "[0, 0, 0, 0]" listening_state]
  show ?thesis using h m by simp
qed

section \<open>A failed read in the worker task\<close>

text \<open>
  Claim C3 says that the worker task decodes the header, updates \<^verbatim>\<open>rxRemaining\<close> and
  calls the receive callback only after a read that succeeded. The code drops the status
  that \<^verbatim>\<open>i2cBlockingRx\<close> returns (line 362). Here unit 0 has received the first 4 bytes of
  a message of 276 bytes and expects 276 more (with the header read again); the driver
  refuses the next transfer, so the read returns \<^verbatim>\<open>SH2_ERR_IO\<close> and the buffer still
  holds the old header. The task takes the cargo length 276 from it, sets
  \<^verbatim>\<open>rxRemaining\<close> to 0 and calls the callback with 276 bytes of the old buffer.
\<close>

theorem halTask_delivers_after_failed_read:
  "map_option fst (value_of (i2cBlockingRx refused_reply 0x94 (rxBuf (sh2 mid_message_state 0)) 276
                      mid_message_state)) = Some SH2_ERR_IO
   \<and> map_option (\<lambda>s'. (rxRemaining (sh2 s' 0), last (trace s')))
        (state_after (halTask_body example_config refused_reply intn_event mid_message_state))
      = Some (0, OnRxCall 1 7 ([0x14, 0x01, 0x00, 0x00] @ replicate 380 0) 276 5000)"
  by (simp add: fixture_defs2 hal_defs)


section \<open>The address of a unit\<close>

text \<open>
  Claim C5 says that after a successful \<^verbatim>\<open>sh2_hal_reset\<close> the stored address equals the
  unit's address constant for the mode. As amended: the stored address is that constant
  shifted left by one bit (twice the constant, the 8-bit form the driver takes), where
  unit 1 has the constants \<^verbatim>\<open>ADDR_DFU_1\<close> and \<^verbatim>\<open>ADDR_SH2_1\<close> and every other unit
  \<^verbatim>\<open>ADDR_DFU_0\<close> and \<^verbatim>\<open>ADDR_SH2_0\<close>. After any run of calls that does not reset the
  unit again, the address is still the same, and \<^verbatim>\<open>sh2_hal_tx\<close> and \<^verbatim>\<open>sh2_hal_rx\<close>
  with a length other than 0 start their one transfer at exactly that address.
\<close>

theorem reset_address_then_transfers:
  assumes ok: "sh2_hal_reset cfg unit dfuMode cb cookie s = Returned SH2_OK s1"
    and run: "run cfg calls s1 = Some s2"
    and nr: "\<not> list_ex (resets_unit unit) calls"
    and len: "len \<noteq> 0"
  shows "unit < SH2_UNITS cfg
       \<and> addr (sh2 s1 unit) = unit_addr unit dfuMode
       \<and> uint (unit_addr unit dfuMode)
           = 2 * (if unit = 1 then (if dfuMode then ADDR_DFU_1 else ADDR_SH2_1)
                  else (if dfuMode then ADDR_DFU_0 else ADDR_SH2_0))
       \<and> addr (sh2 s2 unit) = unit_addr unit dfuMode
       \<and> (\<exists>s3. last_state (sh2_hal_tx cfg reply unit pData len s2) = Some s3
             \<and> filter is_transfer (new_actions s2 s3)
                 = [I2cTransmitIT (ucast (unit_addr unit dfuMode)) pData len])
       \<and> (\<exists>s3. last_state (sh2_hal_rx cfg reply unit pData len s2) = Some s3
             \<and> filter is_transfer (new_actions s2 s3)
                 = [I2cReceiveIT (ucast (unit_addr unit dfuMode)) len])"
proof -
  from sh2_hal_reset_ReturnedD [OF ok]
  have u: "unit < SH2_UNITS cfg" and m1: "\<not> i2cMutex s1"
    and a1: "addr (sh2 s1 unit) = unit_addr unit dfuMode"
    by auto
  from run_ok [OF run] m1 nr a1
  have m2: "\<not> i2cMutex s2" and a2: "addr (sh2 s2 unit) = unit_addr unit dfuMode"
    by auto
  from i2cBlockingTx_transfer [OF m2, of reply "ucast (addr (sh2 s2 unit))" pData len] u len
  have t: "\<exists>s3. last_state (sh2_hal_tx cfg reply unit pData len s2) = Some s3
             \<and> filter is_transfer (new_actions s2 s3)
                 = [I2cTransmitIT (ucast (unit_addr unit dfuMode)) pData len]"
    by (simp add: sh2_hal_tx_def a2)
  from i2cBlockingRx_transfer [OF m2, of reply "ucast (addr (sh2 s2 unit))" pData len] u len
  have r: "\<exists>s3. last_state (sh2_hal_rx cfg reply unit pData len s2) = Some s3
             \<and> filter is_transfer (new_actions s2 s3)
                 = [I2cReceiveIT (ucast (unit_addr unit dfuMode)) len]"
    by (simp add: sh2_hal_rx_def a2)
  from u a1 a2 t r uint_unit_addr [of unit dfuMode] show ?thesis by blast
qed

theorem reset_address_then_transfers_witness:
  "sh2_hal_reset example_config 0 False 1 7 ready_state = Returned SH2_OK listening_state
   \<and> run example_config [ExtiIrq 0 5, TaskTurn first_chunk_reply] listening_state
        = Some mid_message_state
   \<and> addr (sh2 mid_message_state 0) = 0x94
   \<and> (\<exists>s3. last_state (sh2_hal_tx example_config tx_done_reply 0 [1, 2] 2 mid_message_state) = Some s3
          \<and> filter is_transfer (new_actions mid_message_state s3) = [I2cTransmitIT 0x94 [1, 2] 2])"
proof -
  have n: "\<not> list_ex (resets_unit 0) [ExtiIrq 0 5, TaskTurn first_chunk_reply]" "(2 :: 32 word) \<noteq> 0"
    by simp_all
  have a: "unit_addr 0 False = 0x94"
    by (simp add: unit_addr_def ADDR_SH2_0_def)
  from reset_address_then_transfers [OF sh2_hal_reset_example run_example n,
      of tx_done_reply "[1, 2]"]
  show ?thesis
    using sh2_hal_reset_example run_example by (simp add: a)
qed

text \<open>
  Claim C5 as it is written fails for unit 0 reset into DFU mode: the call returns
  \<^verbatim>\<open>SH2_OK\<close> and stores \<open>0x50\<close>, which is not the constant \<^verbatim>\<open>ADDR_DFU_0\<close> (\<open>0x28\<close>).
\<close>

theorem reset_dfu_address_counterexample:
  "value_of (sh2_hal_reset example_config 0 True 1 7 ready_state) = Some SH2_OK
   \<and> stored_addr 0 (sh2_hal_reset example_config 0 True 1 7 ready_state) = Some 0x50
   \<and> stored_addr 0 (sh2_hal_reset example_config 0 True 1 7 ready_state)
        \<noteq> Some (word_of_int ADDR_DFU_0)"
  by (simp add: sh2_hal_reset_def example_config_def ready_state_def zero_Sh2_def Let_def
       rstn0_def bootn0_def log_def take_i2cMutex_def give_i2cMutex_def unit_addr_def
       ADDR_DFU_0_def vTaskDelay_def stored_addr_def)


section \<open>Reinitialising the bus after a reset\<close>

text \<open>
  Claim C6. A \<^verbatim>\<open>sh2_hal_reset\<close> of a valid unit that finds the mutex free and the
  unit's two line functions in place returns \<^verbatim>\<open>SH2_OK\<close> and leaves \<^verbatim>\<open>i2cResetNeeded\<close>
  set, whatever the flag was before; and every \<^verbatim>\<open>sh2_hal_reset\<close> that returns
  \<^verbatim>\<open>SH2_OK\<close> has set it. The flag stays set through any run in which no transfer is
  started. A transaction (read or write) that finds the flag set takes the mutex,
  reinitialises the peripheral (\<^verbatim>\<open>HAL_I2C_DeInit\<close>, \<^verbatim>\<open>HAL_I2C_Init\<close>), only then starts
  the transfer, and leaves the flag cleared. A transaction that finds the flag cleared
  does not reinitialise, and the flag stays cleared, with no reinitialisation, through
  any run of calls without a reset.
\<close>

theorem reset_flag_and_reinit:
  "(unit < SH2_UNITS cfg \<and> \<not> i2cMutex s \<and> rstn (sh2 s unit) \<noteq> None
      \<and> bootn (sh2 s unit) \<noteq> None \<longrightarrow>
        (\<exists>s'. sh2_hal_reset cfg unit dfuMode cb cookie s = Returned SH2_OK s'
           \<and> i2cResetNeeded s'))
   \<and> (sh2_hal_reset cfg unit dfuMode cb cookie s = Returned SH2_OK s1 \<longrightarrow> i2cResetNeeded s1)
   \<and> (i2cResetNeeded s \<and> run cfg calls s = Some s2 \<and> \<not> list_ex is_transfer (new_actions s s2)
        \<longrightarrow> i2cResetNeeded s2)
   \<and> (i2cResetNeeded s \<and> \<not> i2cMutex s \<longrightarrow>
        (\<exists>s'. last_state (i2cBlockingRx reply a p len s) = Some s'
           \<and> take 4 (new_actions s s') = [MutexTake, I2cDeInit, I2cInit, I2cReceiveIT a len]
           \<and> \<not> i2cResetNeeded s')
      \<and> (\<exists>s'. last_state (i2cBlockingTx reply a p len s) = Some s'
           \<and> take 4 (new_actions s s') = [MutexTake, I2cDeInit, I2cInit, I2cTransmitIT a p len]
           \<and> \<not> i2cResetNeeded s'))
   \<and> (\<not> i2cResetNeeded s \<and> \<not> i2cMutex s \<longrightarrow>
        (\<exists>s'. last_state (i2cBlockingRx reply a p len s) = Some s'
           \<and> \<not> list_ex is_reinit (new_actions s s') \<and> \<not> i2cResetNeeded s')
      \<and> (\<exists>s'. last_state (i2cBlockingTx reply a p len s) = Some s'
           \<and> \<not> list_ex is_reinit (new_actions s s') \<and> \<not> i2cResetNeeded s'))
   \<and> (\<not> i2cResetNeeded s \<and> run cfg calls s = Some s2 \<and> \<not> list_ex is_Reset calls
        \<longrightarrow> \<not> i2cResetNeeded s2 \<and> \<not> list_ex is_reinit (new_actions s s2))"
proof (intro conjI impI)
  assume "unit < SH2_UNITS cfg \<and> \<not> i2cMutex s \<and> rstn (sh2 s unit) \<noteq> None
            \<and> bootn (sh2 s unit) \<noteq> None"
  then show "\<exists>s'. sh2_hal_reset cfg unit dfuMode cb cookie s = Returned SH2_OK s'
           \<and> i2cResetNeeded s'"
    by (simp add: sh2_hal_reset_returns)
next
  assume "sh2_hal_reset cfg unit dfuMode cb cookie s = Returned SH2_OK s1"
  from sh2_hal_reset_ReturnedD [OF this] show "i2cResetNeeded s1" by auto
next
  assume h: "i2cResetNeeded s \<and> run cfg calls s = Some s2
               \<and> \<not> list_ex is_transfer (new_actions s s2)"
  then have r: "run cfg calls s = Some s2" by simp
  from run_ok [OF r] h show "i2cResetNeeded s2"
    by (auto simp: new_actions_append)
next
  assume h: "i2cResetNeeded s \<and> \<not> i2cMutex s"
  then have m: "\<not> i2cMutex s" by simp
  from i2cBlockingRx_reinit [OF m, of reply a p len] h
  show "\<exists>s'. last_state (i2cBlockingRx reply a p len s) = Some s'
           \<and> take 4 (new_actions s s') = [MutexTake, I2cDeInit, I2cInit, I2cReceiveIT a len]
           \<and> \<not> i2cResetNeeded s'" by auto
  from i2cBlockingTx_reinit [OF m, of reply a p len] h
  show "\<exists>s'. last_state (i2cBlockingTx reply a p len s) = Some s'
           \<and> take 4 (new_actions s s') = [MutexTake, I2cDeInit, I2cInit, I2cTransmitIT a p len]
           \<and> \<not> i2cResetNeeded s'" by auto
next
  assume h: "\<not> i2cResetNeeded s \<and> \<not> i2cMutex s"
  then have m: "\<not> i2cMutex s" by simp
  from i2cBlockingRx_reinit [OF m, of reply a p len] h
  show "\<exists>s'. last_state (i2cBlockingRx reply a p len s) = Some s'
           \<and> \<not> list_ex is_reinit (new_actions s s') \<and> \<not> i2cResetNeeded s'" by auto
  from i2cBlockingTx_reinit [OF m, of reply a p len] h
  show "\<exists>s'. last_state (i2cBlockingTx reply a p len s) = Some s'
           \<and> \<not> list_ex is_reinit (new_actions s s') \<and> \<not> i2cResetNeeded s'" by auto
next
  assume h: "\<not> i2cResetNeeded s \<and> run cfg calls s = Some s2 \<and> \<not> list_ex is_Reset calls"
  then have r: "run cfg calls s = Some s2" by simp
  from run_ok [OF r] h show "\<not> i2cResetNeeded s2" "\<not> list_ex is_reinit (new_actions s s2)"
    by (auto simp: new_actions_append)
qed

theorem reset_flag_and_reinit_witness:
  "\<not> i2cResetNeeded mid_message_state
   \<and> (\<exists>s'. sh2_hal_reset example_config 0 True 1 7 mid_message_state = Returned SH2_OK s'
          \<and> i2cResetNeeded s')
   \<and> sh2_hal_reset example_config 0 False 1 7 ready_state = Returned SH2_OK listening_state
   \<and> i2cResetNeeded listening_state
   \<and> (\<exists>s'. last_state (i2cBlockingRx first_chunk_reply 0x94 [0, 0, 0, 0] 4 listening_state) = Some s'
          \<and> take 4 (new_actions listening_state s') = [MutexTake, I2cDeInit, I2cInit, I2cReceiveIT 0x94 4]
          \<and> \<not> i2cResetNeeded s')
   \<and> (\<exists>s'. last_state (i2cBlockingTx tx_done_reply 0x94 [1, 2] 2 mid_message_state) = Some s'
          \<and> \<not> list_ex is_reinit (new_actions mid_message_state s') \<and> \<not> i2cResetNeeded s')"
proof -
  have m: "\<not> i2cMutex listening_state" "\<not> i2cResetNeeded mid_message_state"
    "\<not> i2cMutex mid_message_state" "0 < SH2_UNITS example_config"
    "rstn (sh2 mid_message_state 0) \<noteq> None" "bootn (sh2 mid_message_state 0) \<noteq> None"
    by (simp_all add: fixture_defs2)
  have 0: "\<exists>s'. sh2_hal_reset example_config 0 True 1 7 mid_message_state = Returned SH2_OK s'
          \<and> i2cResetNeeded s'"
    using reset_flag_and_reinit [where cfg = example_config and unit = 0 and dfuMode = True
        and cb = 1 and cookie = 7 and s = mid_message_state, THEN conjunct1] m
    by simp
  have 1: "i2cResetNeeded listening_state"
    using reset_flag_and_reinit [where cfg = example_config and unit = 0 and dfuMode = False
        and cb = 1 and cookie = 7 and s = ready_state and ?s1.0 = listening_state,
        THEN conjunct2, THEN conjunct1] sh2_hal_reset_example
    by simp
  have 2: "\<exists>s'. last_state (i2cBlockingRx first_chunk_reply 0x94 [0, 0, 0, 0] 4 listening_state) = Some s'
          \<and> take 4 (new_actions listening_state s') = [MutexTake, I2cDeInit, I2cInit, I2cReceiveIT 0x94 4]
          \<and> \<not> i2cResetNeeded s'"
    using reset_flag_and_reinit [where s = listening_state and reply = first_chunk_reply
        and a = "0x94" and p = "[0, 0, 0, 0]" and len = 4,
        THEN conjunct2, THEN conjunct2, THEN conjunct2, THEN conjunct1] 1 m
    by simp
  have 3: "\<exists>s'. last_state (i2cBlockingTx tx_done_reply 0x94 [1, 2] 2 mid_message_state) = Some s'
          \<and> \<not> list_ex is_reinit (new_actions mid_message_state s') \<and> \<not> i2cResetNeeded s'"
    using reset_flag_and_reinit [where s = mid_message_state and reply = tx_done_reply
        and a = "0x94" and p = "[1, 2]" and len = 2,
        THEN conjunct2, THEN conjunct2, THEN conjunct2, THEN conjunct2, THEN conjunct1] m
    by simp
  from 0 1 2 3 m sh2_hal_reset_example show ?thesis by simp
qed


section \<open>Interrupt events\<close>

text \<open>
  Claim C10. The event that \<^verbatim>\<open>HAL_GPIO_EXTI_Callback\<close> posts has unit index 0 and kind
  \<^verbatim>\<open>EVT_INTN\<close> for every pin number (it is dropped when the queue is full). So a queue
  that holds such events only keeps doing so through every run of calls, and the worker
  task, working through such a queue, leaves every unit other than 0 as it was: each
  read it starts goes to the address of unit 0 and each callback it makes is the one of
  unit 0 with its cookie.
\<close>

theorem exti_events_only_unit0:
  "evtQueue (HAL_GPIO_EXTI_Callback n tick s)
     = (if length (evtQueue s) < MAX_EVENTS
        then evtQueue s @ [\<lparr>t_ms = tick, id_ev = EVT_INTN, unit_ev = 0\<rparr>] else evtQueue s)
   \<and> (only_unit0 (evtQueue s) \<and> run cfg calls s = Some s2 \<longrightarrow> only_unit0 (evtQueue s2))
   \<and> (only_unit0 (evtQueue s) \<and> last_state (halTask cfg replies s) = Some s' \<longrightarrow>
        (\<forall>u. u \<noteq> 0 \<longrightarrow> sh2 s' u = sh2 s u)
      \<and> list_all (action_of_unit (sh2 s 0)) (new_actions s s'))"
proof (intro conjI impI)
  show "evtQueue (HAL_GPIO_EXTI_Callback n tick s)
     = (if length (evtQueue s) < MAX_EVENTS
        then evtQueue s @ [\<lparr>t_ms = tick, id_ev = EVT_INTN, unit_ev = 0\<rparr>] else evtQueue s)"
    by (simp add: HAL_GPIO_EXTI_Callback_def xQueueSend_def)
next
  assume h: "only_unit0 (evtQueue s) \<and> run cfg calls s = Some s2"
  then have r: "run cfg calls s = Some s2" by simp
  from run_ok [OF r] h show "only_unit0 (evtQueue s2)" by simp
next
  assume h: "only_unit0 (evtQueue s) \<and> last_state (halTask cfg replies s) = Some s'"
  then have 1: "only_unit0 (evtQueue s)" and 2: "last_state (halTask cfg replies s) = Some s'"
    by simp_all
  from halTask_unit0 [OF 1 2]
  show "\<forall>u. u \<noteq> 0 \<longrightarrow> sh2 s' u = sh2 s u"
    and "list_all (action_of_unit (sh2 s 0)) (new_actions s s')"
    by (auto simp: new_actions_append)
qed


theorem exti_events_only_unit0_witness:
  "only_unit0 (evtQueue (HAL_GPIO_EXTI_Callback 3 5 listening_state))
   \<and> last_state (halTask example_config [first_chunk_reply] (HAL_GPIO_EXTI_Callback 3 5 listening_state))
        = Some mid_message_state
   \<and> sh2 mid_message_state 1 = sh2 (HAL_GPIO_EXTI_Callback 3 5 listening_state) 1
   \<and> list_all (action_of_unit (sh2 (HAL_GPIO_EXTI_Callback 3 5 listening_state) 0))
        (new_actions (HAL_GPIO_EXTI_Callback 3 5 listening_state) mid_message_state)"
proof -
  have q: "only_unit0 (evtQueue (HAL_GPIO_EXTI_Callback 3 5 listening_state))"
    by (simp add: exti_example only_unit0_def intn_event_def)
  have l: "last_state (halTask example_config [first_chunk_reply]
             (HAL_GPIO_EXTI_Callback 3 5 listening_state)) = Some mid_message_state"
    by (simp only: exti_example halTask_example last_state.simps)
  from exti_events_only_unit0 [of 3 5 "HAL_GPIO_EXTI_Callback 3 5 listening_state" example_config
      "[]" "HAL_GPIO_EXTI_Callback 3 5 listening_state" "[first_chunk_reply]" mid_message_state,
      THEN conjunct2, THEN conjunct2, THEN mp, OF conjI [OF q l]] q l
  show ?thesis by simp
qed


end
